theory Spec2Isabelle
  imports Complex_Main
begin

text \<open>
  A model of the PEG valuation service: \<^verbatim>\<open>lib/valuation.js\<close> (the fetch helpers,
  \<^verbatim>\<open>getStockData\<close>, \<^verbatim>\<open>calculatePeg\<close>, \<^verbatim>\<open>getEstimatedEpsFromAlphaVantage\<close> and
  \<^verbatim>\<open>calculateStockValuation\<close>) and the batch endpoint of \<^verbatim>\<open>app.js\<close>. What the two
  providers answer is an input of the model; an exception is a value (\<open>Inl\<close> with its
  message), so that every \<^verbatim>\<open>throw\<close> and every \<^verbatim>\<open>catch\<close> of the source is a branch.
\<close>

section \<open>JavaScript numbers and values\<close>

text \<open>
  A JavaScript number is an IEEE 754 double: a finite value, the negative zero, one of
  the two infinities, or NaN. \<open>Fin x\<close> is the finite value \<open>x\<close>, \<open>Fin 0\<close> being the
  positive zero. The model admits every real as a finite value, which includes every
  double, and the operators round their exact results as the standard prescribes. The
  variables of \<^verbatim>\<open>valuation.js\<close> that hold \<^verbatim>\<open>number | null\<close> are \<open>jsnum option\<close>,
  \<open>None\<close> being \<^verbatim>\<open>null\<close>.
\<close>

datatype jsnum = Fin real | NegZero | PInf | NInf | NaN

fun isFinite :: "jsnum \<Rightarrow> bool" where
  "isFinite (Fin x) = True"
| "isFinite NegZero = True"
| "isFinite PInf = False"
| "isFinite NInf = False"
| "isFinite NaN = False"

fun isInfinite :: "jsnum \<Rightarrow> bool" where
  "isInfinite PInf = True"
| "isInfinite NInf = True"
| "isInfinite (Fin x) = False"
| "isInfinite NegZero = False"
| "isInfinite NaN = False"

fun isZero :: "jsnum \<Rightarrow> bool" where
  "isZero (Fin x) = (x = 0)"
| "isZero NegZero = True"
| "isZero PInf = False"
| "isZero NInf = False"
| "isZero NaN = False"

text \<open>The sign bit of a number that is not NaN.\<close>

fun signBit :: "jsnum \<Rightarrow> bool" where
  "signBit (Fin x) = (x < 0)"
| "signBit NegZero = True"
| "signBit NInf = True"
| "signBit PInf = False"
| "signBit NaN = False"

text \<open>The real value of a finite number; both zeros have the value 0.\<close>

fun numVal :: "jsnum \<Rightarrow> real" where
  "numVal (Fin x) = x"
| "numVal NegZero = 0"
| "numVal PInf = 0"
| "numVal NInf = 0"
| "numVal NaN = 0"

text \<open>\<^verbatim>\<open>Number.isFinite(v)\<close> for a variable that may hold \<^verbatim>\<open>null\<close>: false on \<^verbatim>\<open>null\<close>.\<close>

fun Number_isFinite :: "jsnum option \<Rightarrow> bool" where
  "Number_isFinite None = False"
| "Number_isFinite (Some n) = isFinite n"

text \<open>The numeric coercion of the operators: \<^verbatim>\<open>null\<close> counts as 0.\<close>

fun ToNumber :: "jsnum option \<Rightarrow> jsnum" where
  "ToNumber None = Fin 0"
| "ToNumber (Some n) = n"

text \<open>
  \<^verbatim>\<open>a <= b\<close> and \<^verbatim>\<open>a < b\<close>; every comparison with NaN is false, and the two zeros
  compare as equal.
\<close>

fun jle :: "jsnum \<Rightarrow> jsnum \<Rightarrow> bool" where
  "jle NaN b = False"
| "jle a NaN = False"
| "jle NInf b = True"
| "jle a PInf = True"
| "jle PInf b = False"
| "jle a NInf = False"
| "jle a b = (numVal a \<le> numVal b)"

fun jlt :: "jsnum \<Rightarrow> jsnum \<Rightarrow> bool" where
  "jlt NaN b = False"
| "jlt a NaN = False"
| "jlt PInf b = False"
| "jlt a NInf = False"
| "jlt NInf b = True"
| "jlt a PInf = True"
| "jlt a b = (numVal a < numVal b)"

text \<open>
  \<^verbatim>\<open>a !== b\<close> on numbers: NaN differs from everything, itself included, and the two
  zeros are equal.
\<close>

fun jneq :: "jsnum \<Rightarrow> jsnum \<Rightarrow> bool" where
  "jneq NaN b = True"
| "jneq a NaN = True"
| "jneq PInf b = (b \<noteq> PInf)"
| "jneq NInf b = (b \<noteq> NInf)"
| "jneq a PInf = True"
| "jneq a NInf = True"
| "jneq a b = (numVal a \<noteq> numVal b)"

text \<open>An infinity and a zero of a given sign.\<close>

definition signedInf :: "bool \<Rightarrow> jsnum" where
  "signedInf positive = (if positive then PInf else NInf)"

definition signedZero :: "bool \<Rightarrow> jsnum" where
  "signedZero positive = (if positive then Fin 0 else NegZero)"

text \<open>The integer nearest to \<open>t\<close>, the even one of the two when \<open>t\<close> lies half-way.\<close>

definition roundHalfEven :: "real \<Rightarrow> int" where
  "roundHalfEven t =
     (let f = \<lfloor>t\<rfloor> in
      if t - of_int f < 1 / 2 then f
      else if 1 / 2 < t - of_int f then f + 1
      else if even f then f else f + 1)"

text \<open>
  The binary exponent of a positive value \<open>x\<close>: the \<open>e\<close> with
  \<open>2 ^ e \<le> x < 2 ^ (e + 1)\<close>, found by halving a value that is at least 1 and by
  doubling a value below 1. The search stops after 1100 steps, beyond the exponents
  -1074 to 1023 of the doubles: a value of at least \<open>2 ^ 1024\<close> overflows and a value
  below \<open>2 ^ (- 1022)\<close> is rounded as a subnormal, whatever its exponent.
\<close>

fun halvings :: "nat \<Rightarrow> real \<Rightarrow> nat" where
  "halvings 0 x = 0"
| "halvings (Suc n) x = (if 2 \<le> x then Suc (halvings n (x / 2)) else 0)"

fun doublings :: "nat \<Rightarrow> real \<Rightarrow> nat" where
  "doublings 0 x = 0"
| "doublings (Suc n) x = (if x < 1 then Suc (doublings n (x * 2)) else 0)"

definition binade :: "real \<Rightarrow> int" where
  "binade x = (if 1 \<le> x then int (halvings 1100 x) else - int (doublings 1100 x))"

definition pow2 :: "int \<Rightarrow> real" where
  "pow2 k = (if 0 \<le> k then 2 ^ nat k else 1 / 2 ^ nat (- k))"

text \<open>
  The doubles near a value \<open>v\<close> that is not 0 are the multiples of \<open>2\<close> to the power
  \<open>ulpExponent v\<close>: a significand of 53 bits, and an exponent that is at least -1022
  (below it the doubles are subnormal, multiples of \<open>2\<close> to the power -1074).
\<close>

definition ulpExponent :: "real \<Rightarrow> int" where
  "ulpExponent v = max (binade \<bar>v\<bar>) (- 1022) - 52"

text \<open>Every finite double is smaller in magnitude than \<open>2\<close> to the power 1024.\<close>

definition overflowThreshold :: real where
  "overflowThreshold = 2 ^ 1024"

text \<open>
  The double that an exact result \<open>v\<close> is rounded to (round to nearest, ties to even):
  the nearest multiple of the unit in the last place; an infinity when that multiple
  reaches the overflow threshold; a zero with the sign of \<open>v\<close> when it is 0.
\<close>

definition round64 :: "real \<Rightarrow> jsnum" where
  "round64 v =
     (if v = 0 then Fin 0
      else let u = pow2 (ulpExponent v);
               r = of_int (roundHalfEven (v / u)) * u
           in if overflowThreshold \<le> \<bar>r\<bar> then signedInf (0 < v)
              else if r = 0 then signedZero (0 < v)
              else Fin r)"

text \<open>
  A numeric literal of the source denotes the double nearest to its decimal value. The
  literals 0, 1, 1.0, 10, 13.5, 29 and 100 are doubles and are written \<open>Fin\<close>; 0.7 is
  not one.
\<close>

definition numberLiteral :: "real \<Rightarrow> jsnum" where
  "numberLiteral v = round64 v"

text \<open>
  The operators \<^verbatim>\<open>+\<close>, \<^verbatim>\<open>-\<close>, \<^verbatim>\<open>*\<close> and \<^verbatim>\<open>/\<close> on numbers, as IEEE 754 defines them:
  NaN for an operand NaN and for the undefined forms; otherwise the exact result
  rounded by \<open>round64\<close>, a zero result having the sign that the standard prescribes.
\<close>

fun jneg :: "jsnum \<Rightarrow> jsnum" where
  "jneg (Fin x) = (if x = 0 then NegZero else Fin (- x))"
| "jneg NegZero = Fin 0"
| "jneg PInf = NInf"
| "jneg NInf = PInf"
| "jneg NaN = NaN"

definition jadd :: "jsnum \<Rightarrow> jsnum \<Rightarrow> jsnum" where
  "jadd a b =
     (if a = NaN \<or> b = NaN then NaN
      else if isInfinite a \<and> isInfinite b then (if a = b then a else NaN)
      else if isInfinite a then a
      else if isInfinite b then b
      else if isZero a \<and> isZero b then signedZero (\<not> (signBit a \<and> signBit b))
      else if numVal a + numVal b = 0 then Fin 0
      else round64 (numVal a + numVal b))"

definition jsub :: "jsnum \<Rightarrow> jsnum \<Rightarrow> jsnum" where
  "jsub a b = jadd a (jneg b)"

definition jmul :: "jsnum \<Rightarrow> jsnum \<Rightarrow> jsnum" where
  "jmul a b =
     (if a = NaN \<or> b = NaN then NaN
      else if (isZero a \<and> isInfinite b) \<or> (isInfinite a \<and> isZero b) then NaN
      else if isInfinite a \<or> isInfinite b then signedInf (signBit a = signBit b)
      else if isZero a \<or> isZero b then signedZero (signBit a = signBit b)
      else round64 (numVal a * numVal b))"

definition jdiv :: "jsnum \<Rightarrow> jsnum \<Rightarrow> jsnum" where
  "jdiv a b =
     (if a = NaN \<or> b = NaN then NaN
      else if (isZero a \<and> isZero b) \<or> (isInfinite a \<and> isInfinite b) then NaN
      else if isInfinite a \<or> isZero b then signedInf (signBit a = signBit b)
      else if isZero a \<or> isInfinite b then signedZero (signBit a = signBit b)
      else round64 (numVal a / numVal b))"

text \<open>Truthiness of a number: the two zeros and NaN are falsy.\<close>

definition numTruthy :: "jsnum \<Rightarrow> bool" where
  "numTruthy n = (\<not> isZero n \<and> n \<noteq> NaN)"

text \<open>Truthiness of a \<^verbatim>\<open>number | null\<close> variable: \<^verbatim>\<open>null\<close> is falsy.\<close>

fun truthyNum :: "jsnum option \<Rightarrow> bool" where
  "truthyNum None = False"
| "truthyNum (Some n) = numTruthy n"

text \<open>
  A value read from a provider's JSON payload. \<open>JUndefined\<close> is an absent property.
  \<open>JObject s\<close> stands for any array or object, \<open>s\<close> being its string conversion.
\<close>

datatype jval =
    JUndefined
  | JNull
  | JBool bool
  | JNumber jsnum
  | JString string
  | JObject string

fun truthy :: "jval \<Rightarrow> bool" where
  "truthy JUndefined = False"
| "truthy JNull = False"
| "truthy (JBool b) = b"
| "truthy (JNumber n) = numTruthy n"
| "truthy (JString s) = (s \<noteq> [])"
| "truthy (JObject s) = True"

text \<open>
  The two built-ins whose results depend on the text of a number are parameters of the
  model: \<open>parseFloatStr\<close> is \<^verbatim>\<open>parseFloat\<close> on a non-empty string and
  \<open>numberToString\<close> is the string conversion of a number. Every theorem below holds
  for all of their values.
\<close>

record builtins =
  parseFloatStr :: "string \<Rightarrow> jsnum"
  numberToString :: "jsnum \<Rightarrow> string"

text \<open>
  \<^verbatim>\<open>parseFloat(v)\<close> converts \<open>v\<close> to its text and parses the text. A number parses
  back to itself, except the negative zero, whose text is \<^verbatim>\<open>0\<close>; the empty string
  and every value whose text starts with no number give NaN.
\<close>

fun parseFloat :: "builtins \<Rightarrow> jval \<Rightarrow> jsnum" where
  "parseFloat B JUndefined = NaN"
| "parseFloat B JNull = NaN"
| "parseFloat B (JBool b) = NaN"
| "parseFloat B (JNumber n) = (if n = NegZero then Fin 0 else n)"
| "parseFloat B (JString s) = (if s = [] then NaN else parseFloatStr B s)"
| "parseFloat B (JObject s) = (if s = [] then NaN else parseFloatStr B s)"
text \<open>The text a value contributes to a template literal.\<close>

fun toStr :: "builtins \<Rightarrow> jval \<Rightarrow> string" where
  "toStr B JUndefined = ''undefined''"
| "toStr B JNull = ''null''"
| "toStr B (JBool b) = (if b then ''true'' else ''false'')"
| "toStr B (JNumber n) = numberToString B n"
| "toStr B (JString s) = s"
| "toStr B (JObject s) = s"

text \<open>\<^verbatim>\<open>s.includes(sub)\<close>: \<open>sub\<close> occurs in \<open>s\<close> as a contiguous run.\<close>

fun str_includes :: "string \<Rightarrow> string \<Rightarrow> bool" where
  "str_includes [] sub = (sub = [])"
| "str_includes (x # xs) sub = (take (length sub) (x # xs) = sub \<or> str_includes xs sub)"

text \<open>The decimal text of an HTTP status code.\<close>

fun showNat :: "nat \<Rightarrow> string" where
  "showNat n =
     (if n < 10 then [''0123456789'' ! n]
      else showNat (n div 10) @ [''0123456789'' ! (n mod 10)])"

declare showNat.simps [simp del]

section \<open>The providers' responses\<close>

text \<open>
  What one \<^verbatim>\<open>fetch(url)\<close> followed by \<^verbatim>\<open>response.json()\<close> can do: the request fails
  with a message, the response has a status that is not ok, the body is not JSON (the
  parser's message), the body is the JSON value \<^verbatim>\<open>null\<close> (whose properties cannot be
  read), or the body is a JSON object; any other JSON value behaves as an object without
  the properties that the code reads. A call that never answers is outside the model.
\<close>

datatype 'a http =
    NetworkError string
  | HttpStatus nat
  | InvalidJson string
  | JsonNull
  | JsonBody 'a

text \<open>
  The message of the TypeError raised by reading property \<open>prop\<close> of \<^verbatim>\<open>null\<close>, and
  of \<^verbatim>\<open>undefined\<close>.
\<close>

definition nullRead :: "string \<Rightarrow> string" where
  "nullRead prop =
     ''Cannot read properties of null (reading '' @ [CHR 0x27] @ prop @ [CHR 0x27] @ '')''"

definition undefinedRead :: "string \<Rightarrow> string" where
  "undefinedRead prop =
     ''Cannot read properties of undefined (reading '' @ [CHR 0x27] @ prop @ [CHR 0x27] @ '')''"

text \<open>
  What an element of an array of a payload can be: \<^verbatim>\<open>null\<close>, whose properties cannot
  be read; \<^verbatim>\<open>undefined\<close>, which indexing gives when the payload's value is not an
  array and has no such index; or a value whose properties can be read (an object, or
  a primitive value, which has none of the properties that the code reads).
\<close>

datatype 'a element =
    NullElement
  | UndefinedElement
  | Element 'a

text \<open>\<open>Inl\<close> is a thrown Error with its message; \<open>Inr None\<close> is the value \<^verbatim>\<open>null\<close>.\<close>

fun fetchFinnhub :: "'a http \<Rightarrow> string + 'a option" where
  "fetchFinnhub (NetworkError m) = Inl (''Finnhub API call failed: '' @ m)"
| "fetchFinnhub (HttpStatus n) =
     Inl (''Finnhub API call failed: '' @ ''API returned status '' @ showNat n)"
| "fetchFinnhub (InvalidJson m) = Inl (''Finnhub API call failed: '' @ m)"
| "fetchFinnhub JsonNull = Inr None"
| "fetchFinnhub (JsonBody d) = Inr (Some d)"

record av_estimate =
  date :: jval
  eps_estimate_average :: jval

text \<open>
  The property \<^verbatim>\<open>estimates\<close> when the code looks into it: an array (or a string), given
  by the elements that \<^verbatim>\<open>for ... of\<close> visits, in order; or a value that has a
  \<^verbatim>\<open>length\<close> greater than 0 and cannot be iterated (an object that is not an array).
\<close>

datatype estimates_value =
    EstimatesArray "av_estimate element list"
  | EstimatesNotIterable

text \<open>
  The Alpha Vantage payload. \<open>estimates = None\<close> when the property is absent or falsy,
  or has no \<^verbatim>\<open>length\<close> that is greater than 0 (an empty array is \<open>EstimatesArray []\<close>
  all the same).
\<close>

record av_data =
  Note :: jval
  Error :: jval
  estimates :: "estimates_value option"

fun fetchAlphaVantage :: "builtins \<Rightarrow> av_data http \<Rightarrow> string + av_data" where
  "fetchAlphaVantage B (NetworkError m) = Inl (''Alpha Vantage API call failed: '' @ m)"
| "fetchAlphaVantage B (HttpStatus n) =
     Inl (''Alpha Vantage API call failed: '' @ ''API returned status '' @ showNat n)"
| "fetchAlphaVantage B (InvalidJson m) = Inl (''Alpha Vantage API call failed: '' @ m)"
| "fetchAlphaVantage B JsonNull =
     Inl (''Alpha Vantage API call failed: '' @ nullRead ''Note'')"
| "fetchAlphaVantage B (JsonBody d) =
     (if truthy (Note d) then
        Inl (''Alpha Vantage API call failed: '' @ ''API rate limit exceeded: '' @ toStr B (Note d))
      else if truthy (Error d) \<and> Error d \<noteq> JString ''None'' then
        Inl (''Alpha Vantage API call failed: '' @ toStr B (Error d))
      else Inr d)"

section \<open>Security fundamentals: \<^verbatim>\<open>getStockData\<close>\<close>

text \<open>
  The Finnhub payloads, as far as \<^verbatim>\<open>getStockData\<close> reads them. An \<open>option\<close> field is
  \<open>None\<close> when the property is absent or falsy, so that the code does not descend into
  it. \<^verbatim>\<open>data\<close> is \<open>None\<close> also when it has no \<^verbatim>\<open>length\<close> that is greater than 0 (an
  empty array is \<open>Some []\<close> all the same); otherwise it is \<open>Some xs\<close>, the head of \<open>xs\<close>
  being what \<^verbatim>\<open>data[0]\<close> gives.
\<close>

record quote_data =
  c :: jval

record metric_fields =
  peTTM :: jval
  peExclExtraTTM :: jval
  peAnnual :: jval
  epsTTM :: jval
  epsExclExtraItemsTTM :: jval
  epsAnnual :: jval
  beta :: jval

record metrics_data =
  metric :: "metric_fields option"

record ic_data =
  NetIncomeLoss :: jval

record report_data =
  ic :: "ic_data option"

record filing =
  report :: "report_data option"

record financials_data =
  data :: "filing element list option"

text \<open>What the provider calls made for one symbol answer, one field per endpoint.\<close>

record provider =
  quoteResponse :: "quote_data http"
  metricResponse :: "metrics_data http"
  financialsResponse :: "financials_data http"
  estimatesResponse :: "av_data http"

record stockData =
  beta :: jsnum
  actualEps :: "jsnum option"
  estimatedEps :: "jsnum option"
  price :: jsnum
  pe :: "jsnum option"
  warnings :: "string list"

text \<open>
  The first \<^verbatim>\<open>try\<close> block of \<^verbatim>\<open>getStockData\<close> (lines 78-88): the price, or the
  Error it throws. Every exception of the block is rethrown with the quote prefix.
\<close>

definition fetchCurrentPrice :: "builtins \<Rightarrow> quote_data http \<Rightarrow> string \<Rightarrow> string + jsnum" where
  "fetchCurrentPrice B q ticker =
     (case
        (case fetchFinnhub q of
           Inl e \<Rightarrow> Inl e
         | Inr None \<Rightarrow> Inl (nullRead ''c'')
         | Inr (Some quoteData) \<Rightarrow>
             (let p = parseFloat B (c quoteData) in
              if \<not> isFinite p \<or> jle p (Fin 0)
              then Inl (''Invalid price for '' @ ticker @ '': '' @ toStr B (c quoteData))
              else Inr p))
      of
        Inl e \<Rightarrow> Inl (''Failed to get quote for '' @ ticker @ '': '' @ e)
      | Inr p \<Rightarrow> Inr p)"

text \<open>The priority chains of lines 99-114: the first property that is not undefined.\<close>

definition extractPe :: "builtins \<Rightarrow> metric_fields \<Rightarrow> jsnum option" where
  "extractPe B metrics =
     (if peTTM metrics \<noteq> JUndefined then Some (parseFloat B (peTTM metrics))
      else if peExclExtraTTM metrics \<noteq> JUndefined then Some (parseFloat B (peExclExtraTTM metrics))
      else if peAnnual metrics \<noteq> JUndefined then Some (parseFloat B (peAnnual metrics))
      else None)"

definition extractEps :: "builtins \<Rightarrow> metric_fields \<Rightarrow> jsnum option" where
  "extractEps B metrics =
     (if epsTTM metrics \<noteq> JUndefined then Some (parseFloat B (epsTTM metrics))
      else if epsExclExtraItemsTTM metrics \<noteq> JUndefined
        then Some (parseFloat B (epsExclExtraItemsTTM metrics))
      else if epsAnnual metrics \<noteq> JUndefined then Some (parseFloat B (epsAnnual metrics))
      else None)"

text \<open>Lines 125-131: beta and the warnings pushed while reading it.\<close>

definition extractBeta :: "builtins \<Rightarrow> metric_fields \<Rightarrow> jsnum option \<times> string list" where
  "extractBeta B metrics =
     (if truthy (metric_fields.beta metrics) then
        (let b = parseFloat B (metric_fields.beta metrics) in
         if \<not> isFinite b \<or> jlt b (Fin 0)
         then (None, [''Beta value was invalid; using fallback.''])
         else (Some b, []))
      else (None, []))"

text \<open>
  The second \<^verbatim>\<open>try\<close> block (lines 91-135): \<open>(pe, actualEps, beta, warnings)\<close> after it.
  The block can only throw before its first assignment.
\<close>

definition fetchMetrics ::
  "builtins \<Rightarrow> metrics_data http \<Rightarrow> jsnum option \<times> jsnum option \<times> jsnum option \<times> string list" where
  "fetchMetrics B m =
     (case fetchFinnhub m of
        Inl e \<Rightarrow>
          (None, None, None, [''Could not fetch metrics; some data may be unavailable: '' @ e])
      | Inr None \<Rightarrow>
          (None, None, None,
           [''Could not fetch metrics; some data may be unavailable: '' @ nullRead ''metric''])
      | Inr (Some metricsData) \<Rightarrow>
          (case metric metricsData of
             None \<Rightarrow> (None, None, None, [])
           | Some metrics \<Rightarrow>
               (let pe0 = extractPe B metrics;
                    eps0 = extractEps B metrics;
                    pe1 = (if Number_isFinite pe0 \<and> jle (ToNumber pe0) (Fin 0) then None else pe0);
                    eps1 = (if \<not> Number_isFinite eps0 then None else eps0)
                in (pe1, eps1, fst (extractBeta B metrics), snd (extractBeta B metrics)))))"

text \<open>
  The third \<^verbatim>\<open>try\<close> block (lines 139-158), entered when \<^verbatim>\<open>!actualEps\<close>: the net income
  that replaces \<^verbatim>\<open>actualEps\<close>, if one is accepted, and the warnings pushed.
\<close>

definition netIncomeOf :: "builtins \<Rightarrow> filing \<Rightarrow> jsnum option \<times> string list" where
  "netIncomeOf B latestFiling =
     (case report latestFiling of
        None \<Rightarrow> (None, [])
      | Some rep \<Rightarrow>
          (case ic rep of
             None \<Rightarrow> (None, [])
           | Some incomeStatement \<Rightarrow>
               (if truthy (NetIncomeLoss incomeStatement) then
                  (let netIncome = parseFloat B (NetIncomeLoss incomeStatement) in
                   if isFinite netIncome \<and> jneq netIncome (Fin 0)
                   then (Some netIncome,
                         [''Actual EPS derived from reported net income (not per share basis).''])
                   else (None, []))
                else (None, []))))"

definition fetchFinancials ::
  "builtins \<Rightarrow> financials_data http \<Rightarrow> jsnum option \<times> string list" where
  "fetchFinancials B f =
     (case fetchFinnhub f of
        Inl e \<Rightarrow> (None, [''Could not fetch financials: '' @ e])
      | Inr None \<Rightarrow> (None, [''Could not fetch financials: '' @ nullRead ''data''])
      | Inr (Some financialsData) \<Rightarrow>
          (case data financialsData of
             None \<Rightarrow> (None, [])
           | Some [] \<Rightarrow> (None, [])
           | Some (NullElement # older) \<Rightarrow>
               (None, [''Could not fetch financials: '' @ nullRead ''report''])
           | Some (UndefinedElement # older) \<Rightarrow>
               (None, [''Could not fetch financials: '' @ undefinedRead ''report''])
           | Some (Element latestFiling # older) \<Rightarrow> netIncomeOf B latestFiling))"

text \<open>\<open>Inl\<close> is the Error thrown when the price cannot be obtained.\<close>

definition getStockData :: "builtins \<Rightarrow> provider \<Rightarrow> string \<Rightarrow> string + stockData" where
  "getStockData B P ticker =
     (case fetchCurrentPrice B (quoteResponse P) ticker of
        Inl e \<Rightarrow> Inl e
      | Inr p \<Rightarrow>
          (let (pe1, eps1, beta1, w1) = fetchMetrics B (metricResponse P);
               (eps2, w2) =
                 (if \<not> truthyNum eps1 then
                    (case fetchFinancials B (financialsResponse P) of
                       (None, w) \<Rightarrow> (eps1, w)
                     | (Some netIncome, w) \<Rightarrow> (Some netIncome, w))
                  else (eps1, []));
               (beta2, w3) =
                 (case beta1 of
                    None \<Rightarrow> (Fin 1, [''Beta value unavailable; using default beta = 1.0''])
                  | Some b \<Rightarrow> (b, []))
           in Inr \<lparr> stockData.beta = beta2, actualEps = eps2, estimatedEps = None,
                    price = p, pe = pe1, warnings = w1 @ w2 @ w3 \<rparr>))"

section \<open>The PEG helper and the forward estimate\<close>

definition calculatePeg :: "jsnum option \<Rightarrow> jsnum option \<Rightarrow> jsnum option" where
  "calculatePeg peValue growthRateDecimal =
     (if jle (ToNumber growthRateDecimal) (Fin 0) \<or> \<not> Number_isFinite peValue
         \<or> jle (ToNumber peValue) (Fin 0)
      then None
      else Some (jdiv (ToNumber peValue) (jmul (ToNumber growthRateDecimal) (Fin 100))))"

record alphaEstimate =
  eps :: jsnum
  period :: jval

text \<open>
  The \<^verbatim>\<open>for ... of\<close> loop of lines 197-204 and the \<^verbatim>\<open>return null\<close> of line 207 that
  follows it. \<open>Inl\<close> is the TypeError that reading \<^verbatim>\<open>estimate.date\<close> raises when the
  element is \<^verbatim>\<open>null\<close>.
\<close>

fun scanEstimates :: "builtins \<Rightarrow> av_estimate element list \<Rightarrow> string + alphaEstimate option" where
  "scanEstimates B [] = Inr None"
| "scanEstimates B (NullElement # rest) = Inl (nullRead ''date'')"
| "scanEstimates B (UndefinedElement # rest) = Inl (undefinedRead ''date'')"
| "scanEstimates B (Element estimate # rest) =
     (if truthy (date estimate) \<and> truthy (eps_estimate_average estimate) then
        (let average = parseFloat B (eps_estimate_average estimate) in
         if isFinite average \<and> jlt (Fin 0) average
         then Inr (Some \<lparr> eps = average, period = date estimate \<rparr>)
         else scanEstimates B rest)
      else scanEstimates B rest)"

text \<open>The body of the \<^verbatim>\<open>try\<close> of \<^verbatim>\<open>getEstimatedEpsFromAlphaVantage\<close>; \<open>Inl\<close> is a throw.\<close>

definition estimatesTry :: "builtins \<Rightarrow> av_data http \<Rightarrow> string + alphaEstimate option" where
  "estimatesTry B h =
     (case fetchAlphaVantage B h of
        Inl e \<Rightarrow> Inl e
      | Inr d \<Rightarrow>
          (case estimates d of
             None \<Rightarrow> Inr None
           | Some EstimatesNotIterable \<Rightarrow> Inl ''data.estimates is not iterable''
           | Some (EstimatesArray es) \<Rightarrow>
               (if 0 < length es then scanEstimates B es else Inr None)))"

text \<open>
  The outcome of the call: \<open>Inl\<close> would be an exception that leaves the function,
  \<open>Inr None\<close> is the value \<^verbatim>\<open>null\<close>. The \<^verbatim>\<open>catch\<close> of lines 208-210 turns every
  exception of the body into \<^verbatim>\<open>null\<close>.
\<close>

definition getEstimatedEpsFromAlphaVantage ::
  "builtins \<Rightarrow> av_data http \<Rightarrow> string + alphaEstimate option" where
  "getEstimatedEpsFromAlphaVantage B h =
     (case estimatesTry B h of
        Inl e \<Rightarrow> Inr None
      | Inr found \<Rightarrow> Inr found)"

section \<open>The valuation: \<^verbatim>\<open>calculateStockValuation\<close>\<close>

text \<open>
  The parameter object. \<open>alphaVantageApiKey\<close> and \<open>market\<close> are \<open>None\<close> and
  \<open>marketGrowthRatePercent\<close> is \<open>JUndefined\<close> when the caller leaves them out.
\<close>

record params =
  symbol :: string
  finnhubApiKey :: string
  alphaVantageApiKey :: "string option"
  market :: "string option"
  marketGrowthRatePercent :: jval

text \<open>The \<^verbatim>\<open>assumptions\<close> object; \<open>notesList\<close> is its property \<^verbatim>\<open>notes\<close>.\<close>

record assumptions_data =
  marketGrowthRatePercent :: jval
  notesList :: "string list"

record result =
  symbol :: string
  market :: string
  marketPe :: "jsnum option"
  marketPeg :: "jsnum option"
  beta :: "jsnum option"
  actualEps :: "jsnum option"
  estimatedEps :: "jsnum option"
  stockPe :: "jsnum option"
  growthRate :: "jsnum option"
  stockPeg :: "jsnum option"
  currentPrice :: "jsnum option"
  fairValue :: "jsnum option"
  assumptions :: assumptions_data
  warnings :: "string list"
  hasForwardEps :: bool
  betaFallbackUsed :: bool
  valuationPossible :: bool

text \<open>Lines 224-260: the defaults of the destructuring and the initial result.\<close>

definition marketOf :: "params \<Rightarrow> string" where
  "marketOf p = (case params.market p of None \<Rightarrow> ''US'' | Some m \<Rightarrow> m)"

definition growthPercentOf :: "params \<Rightarrow> jval" where
  "growthPercentOf p =
     (if params.marketGrowthRatePercent p = JUndefined then JNumber (Fin 10)
      else params.marketGrowthRatePercent p)"

definition initialResult :: "params \<Rightarrow> result" where
  "initialResult p =
     \<lparr> symbol = params.symbol p,
       market = marketOf p,
       marketPe = None,
       marketPeg = None,
       beta = None,
       actualEps = None,
       estimatedEps = None,
       stockPe = None,
       growthRate = None,
       stockPeg = None,
       currentPrice = None,
       fairValue = None,
       assumptions =
         \<lparr> marketGrowthRatePercent = growthPercentOf p,
           notesList =
             [''Market PE obtained from '' @ (if marketOf p = ''HK'' then ''2800'' else ''SPY'')
                @ '' ETF via Finnhub'',
              ''Growth rate calculated as estimatedEps / actualEps - 1'',
              ''PEG formulas follow standard definition (PE divided by earnings growth in percent)'',
              ''Fair value = price * (market PEG * beta / stock PEG)'',
              ''Stock metrics from Finnhub API (https://finnhub.io/docs/api/)'',
              ''Estimated EPS from Alpha Vantage (https://www.alphavantage.co/documentation/#earnings-estimates)''] \<rparr>,
       warnings = [],
       hasForwardEps = False,
       betaFallbackUsed = False,
       valuationPossible = False \<rparr>"

text \<open>Step 1 (lines 266-267): the benchmark is the constant 29 over the constant 13.5.\<close>

definition marketStep :: "result \<Rightarrow> result" where
  "marketStep r =
     (let r1 = r\<lparr> marketPe := Some (Fin 29) \<rparr>
      in r1\<lparr> marketPeg := Some (jdiv (ToNumber (marketPe r1)) (Fin 13.5)) \<rparr>)"

text \<open>Step 2 (lines 271-275).\<close>

definition stockDataStep :: "stockData \<Rightarrow> result \<Rightarrow> result" where
  "stockDataStep sd r =
     r\<lparr> beta := Some (stockData.beta sd),
        actualEps := stockData.actualEps sd,
        estimatedEps := stockData.estimatedEps sd,
        currentPrice := Some (price sd),
        warnings := warnings r @ stockData.warnings sd \<rparr>"

text \<open>Step 2b (lines 278-284); \<open>Inl\<close> is an exception of the awaited call.\<close>

definition estimateStep ::
  "builtins \<Rightarrow> av_data http \<Rightarrow> string option \<Rightarrow> result \<Rightarrow> string + result" where
  "estimateStep B h apiKey r =
     (if \<not> Number_isFinite (estimatedEps r) \<and> apiKey \<noteq> None \<and> apiKey \<noteq> Some [] then
        (case getEstimatedEpsFromAlphaVantage B h of
           Inl e \<Rightarrow> Inl e
         | Inr None \<Rightarrow> Inr r
         | Inr (Some alpha) \<Rightarrow>
             Inr (r\<lparr> estimatedEps := Some (eps alpha),
                      warnings := warnings r
                        @ [''Estimated EPS from Alpha Vantage for period '' @ toStr B (period alpha)] \<rparr>))
      else Inr r)"

text \<open>Lines 286-291.\<close>

definition betaFallbackStep :: "stockData \<Rightarrow> result \<Rightarrow> result" where
  "betaFallbackStep sd r =
     (if jneq (stockData.beta sd) (Fin 1)
         \<or> list_ex (\<lambda>w. str_includes w ''default'') (stockData.warnings sd)
      then
        (if list_ex (\<lambda>w. str_includes w ''default beta'') (stockData.warnings sd)
         then r\<lparr> betaFallbackUsed := True \<rparr>
         else r)
      else r)"

text \<open>Steps 5 and 6 (lines 318-334).\<close>

definition pegSteps :: "result \<Rightarrow> result" where
  "pegSteps r =
     (if jle (ToNumber (growthRate r)) (Fin 0) \<or> jle (ToNumber (stockPe r)) (Fin 0) then
        r\<lparr> warnings := warnings r
             @ [''Growth rate or PE is non-positive; PEG-based valuation not meaningful.''],
           valuationPossible := False \<rparr>
      else
        (let r1 = r\<lparr> stockPeg := calculatePeg (stockPe r) (growthRate r) \<rparr> in
         if stockPeg r1 = None \<or> jle (ToNumber (stockPeg r1)) (Fin 0) then
           r1\<lparr> warnings := warnings r1
                 @ [''PEG calculation resulted in non-positive value; valuation not possible.''],
               valuationPossible := False \<rparr>
         else
           r1\<lparr> fairValue :=
                 Some (jmul (ToNumber (currentPrice r1))
                         (jdiv
                            (jadd (ToNumber (marketPeg r1))
                               (jmul (jmul (jsub (ToNumber (beta r1)) (Fin 1)) (numberLiteral 0.7))
                                  (ToNumber (marketPeg r1))))
                            (ToNumber (stockPeg r1)))),
               valuationPossible := True \<rparr>))"

text \<open>The EPS validation and steps 3 and 4 (lines 294-315), then steps 5 and 6.\<close>

definition valuationSteps :: "stockData \<Rightarrow> result \<Rightarrow> result" where
  "valuationSteps sd r =
     (if \<not> Number_isFinite (actualEps r) \<or> \<not> Number_isFinite (estimatedEps r) then
        r\<lparr> warnings := warnings r
             @ [''Missing or invalid EPS data; valuation cannot be completed. Finnhub free API may not provide detailed EPS estimates.''],
           valuationPossible := False \<rparr>
      else
        (let r1 = r\<lparr> hasForwardEps := True \<rparr>;
             r2 = r1\<lparr> growthRate :=
                      Some (jsub (jdiv (ToNumber (estimatedEps r1)) (ToNumber (actualEps r1)))
                              (Fin 1)) \<rparr>
         in
           if pe sd \<noteq> None then pegSteps (r2\<lparr> stockPe := pe sd \<rparr>)
           else if truthyNum (currentPrice r2) \<and> truthyNum (actualEps r2) then
             pegSteps
               (r2\<lparr> stockPe := Some (jdiv (ToNumber (currentPrice r2)) (ToNumber (actualEps r2))),
                    warnings := warnings r2
                      @ [''PE calculated from price / actualEps (not from API).''] \<rparr>)
           else
             r2\<lparr> warnings := warnings r2 @ [''Cannot calculate PE; price or EPS missing.''],
                 valuationPossible := False \<rparr>))"

text \<open>
  The body of the \<^verbatim>\<open>try\<close> (lines 262-335). \<open>Inl (e, r)\<close> is an exception with message
  \<open>e\<close>, raised when the result object had been updated to \<open>r\<close>.
\<close>

definition valuationTry :: "builtins \<Rightarrow> provider \<Rightarrow> params \<Rightarrow> (string \<times> result) + result" where
  "valuationTry B P p =
     (let r1 = marketStep (initialResult p) in
      case getStockData B P (params.symbol p) of
        Inl e \<Rightarrow> Inl (e, r1)
      | Inr sd \<Rightarrow>
          (let r2 = stockDataStep sd r1 in
           case estimateStep B (estimatesResponse P) (alphaVantageApiKey p) r2 of
             Inl e \<Rightarrow> Inl (e, r2)
           | Inr r3 \<Rightarrow> Inr (valuationSteps sd (betaFallbackStep sd r3))))"

text \<open>
  The outcome of the asynchronous function: \<open>Inr\<close> is the fulfilled result, \<open>Inl\<close>
  would be a rejection. The \<^verbatim>\<open>catch\<close> of lines 336-339 handles every exception of the
  body.
\<close>

definition calculateStockValuation :: "builtins \<Rightarrow> provider \<Rightarrow> params \<Rightarrow> string + result" where
  "calculateStockValuation B P p =
     (case valuationTry B P p of
        Inl (e, r) \<Rightarrow>
          Inr (r\<lparr> warnings := warnings r @ [''Error during calculation: '' @ e],
                   valuationPossible := False \<rparr>)
      | Inr r \<Rightarrow> Inr r)"

section \<open>The batch endpoint\<close>

text \<open>
  \<^verbatim>\<open>toUpperCase\<close> on the ASCII letters; the other characters are kept (JavaScript also
  maps letters beyond ASCII).
\<close>

definition upperChar :: "char \<Rightarrow> char" where
  "upperChar ch =
     (case map_of (zip ''abcdefghijklmnopqrstuvwxyz'' ''ABCDEFGHIJKLMNOPQRSTUVWXYZ'') ch of
        None \<Rightarrow> ch
      | Some upper \<Rightarrow> upper)"

definition toUpperCase :: "string \<Rightarrow> string" where
  "toUpperCase s = map upperChar s"

text \<open>\<^verbatim>\<open>marketList[index] || 'US'\<close>: an index past the end and an empty string give US.\<close>

definition marketAt :: "string list \<Rightarrow> nat \<Rightarrow> string" where
  "marketAt marketList index =
     (if index < length marketList \<and> marketList ! index \<noteq> [] then marketList ! index
      else ''US'')"

text \<open>\<^verbatim>\<open>parseFloat(marketGrowthRatePercent) || 10\<close> on the query parameter.\<close>

definition batchGrowthPercent :: "builtins \<Rightarrow> jval \<Rightarrow> jval" where
  "batchGrowthPercent B q =
     (let g = parseFloat B q in if numTruthy g then JNumber g else JNumber (Fin 10))"

text \<open>
  One element of \<^verbatim>\<open>results\<close>: the fulfilled valuation, or the object
  \<^verbatim>\<open>{symbol, error, valuationPossible}\<close> that the \<^verbatim>\<open>.catch\<close> handler builds.
\<close>

datatype batch_item =
    is_Fulfilled: Fulfilled result
  | is_Caught: Caught string string bool

text \<open>
  The providers answer a call by its URL alone: \<open>W\<close> gives, for the symbol in the URL,
  what the calls for that symbol answer. Lines 221-232 for one symbol of the list.
\<close>

definition batchItem ::
  "builtins \<Rightarrow> (string \<Rightarrow> provider) \<Rightarrow> string \<Rightarrow> string option \<Rightarrow> jval \<Rightarrow> string list
     \<Rightarrow> string \<Rightarrow> nat \<Rightarrow> batch_item" where
  "batchItem B W apiKey alphaKey growthQuery marketList ticker index =
     (case calculateStockValuation B (W (toUpperCase ticker))
             \<lparr> params.symbol = toUpperCase ticker,
               finnhubApiKey = apiKey,
               alphaVantageApiKey = alphaKey,
               market = Some (marketAt marketList index),
               marketGrowthRatePercent = batchGrowthPercent B growthQuery \<rparr>
      of
        Inr r \<Rightarrow> Fulfilled r
      | Inl e \<Rightarrow> Caught ticker e False)"

text \<open>Lines 220-234: \<^verbatim>\<open>Promise.all\<close> over \<^verbatim>\<open>symbolList.map\<close>, in the order of the list.\<close>

definition batchResults ::
  "builtins \<Rightarrow> (string \<Rightarrow> provider) \<Rightarrow> string \<Rightarrow> string option \<Rightarrow> jval \<Rightarrow> string list
     \<Rightarrow> string list \<Rightarrow> batch_item list" where
  "batchResults B W apiKey alphaKey growthQuery symbolList marketList =
     map (\<lambda>index. batchItem B W apiKey alphaKey growthQuery marketList (symbolList ! index) index)
       [0..<length symbolList]"

section \<open>Notions of the specification\<close>





text \<open>A list without its element at position \<open>i\<close>: a batch request without one ticker.\<close>

definition dropIndex :: "nat \<Rightarrow> 'a list \<Rightarrow> 'a list" where
  "dropIndex i xs = take i xs @ drop (Suc i) xs"

section \<open>Sample inputs\<close>

text \<open>
  The built-ins on the texts the samples use: the strings \<^verbatim>\<open>6.00\<close>, \<^verbatim>\<open>3.00\<close>,
  \<^verbatim>\<open>0\<close> and \<^verbatim>\<open>-0\<close> parse to their values, every other string to NaN. No sample
  converts a finite number other than 0 to text. The numbers of the samples are
  doubles.
\<close>

definition sampleBuiltins :: builtins where
  "sampleBuiltins =
     \<lparr> parseFloatStr =
         (\<lambda>s. if s = ''6.00'' then Fin 6 else if s = ''3.00'' then Fin 3
              else if s = ''0'' then Fin 0 else if s = ''-0'' then NegZero else NaN),
       numberToString =
         (\<lambda>n. case n of Fin x \<Rightarrow> ''0'' | NegZero \<Rightarrow> ''0'' | PInf \<Rightarrow> ''Infinity''
               | NInf \<Rightarrow> ''-Infinity'' | NaN \<Rightarrow> ''NaN'') \<rparr>"

definition sampleMetric :: metric_fields where
  "sampleMetric =
     \<lparr> peTTM = JNumber (Fin 25),
       peExclExtraTTM = JUndefined,
       peAnnual = JUndefined,
       epsTTM = JNumber (Fin 4),
       epsExclExtraItemsTTM = JUndefined,
       epsAnnual = JUndefined,
       beta = JNumber (Fin 1.25) \<rparr>"

definition sampleEstimates :: "string \<Rightarrow> av_data" where
  "sampleEstimates average =
     \<lparr> Note = JUndefined,
       Error = JUndefined,
       estimates =
         Some (EstimatesArray
           [Element \<lparr> date = JString ''2026-09-30'', eps_estimate_average = JString average \<rparr>]) \<rparr>"

text \<open>
  A symbol with price 150.25, reported PE 25, trailing EPS 4, beta 1.25 and a forward
  estimate of 6.00; the filings are not reachable.
\<close>

definition sampleProvider :: provider where
  "sampleProvider =
     \<lparr> quoteResponse = JsonBody \<lparr> c = JNumber (Fin 150.25) \<rparr>,
       metricResponse = JsonBody \<lparr> metric = Some sampleMetric \<rparr>,
       financialsResponse = HttpStatus 500,
       estimatesResponse = JsonBody (sampleEstimates ''6.00'') \<rparr>"

text \<open>A symbol the quote endpoint does not know.\<close>

definition failingProvider :: provider where
  "failingProvider =
     \<lparr> quoteResponse = HttpStatus 404,
       metricResponse = HttpStatus 404,
       financialsResponse = HttpStatus 404,
       estimatesResponse = HttpStatus 404 \<rparr>"

text \<open>
  The same symbol when Finnhub reports no PE and the forward estimate, 3.00, is below
  the trailing EPS of 4.
\<close>

definition decliningProvider :: provider where
  "decliningProvider =
     sampleProvider
       \<lparr> metricResponse := JsonBody \<lparr> metric = Some (sampleMetric\<lparr> peTTM := JUndefined \<rparr>) \<rparr>,
         estimatesResponse := JsonBody (sampleEstimates ''3.00'') \<rparr>"


text \<open>
  The same symbol at a price of \<open>2 ^ 1023\<close>, a double near the largest one, with no
  beta reported.
\<close>

definition hugePriceProvider :: provider where
  "hugePriceProvider =
     sampleProvider
       \<lparr> quoteResponse := JsonBody \<lparr> c = JNumber (Fin (2 ^ 1023)) \<rparr>,
         metricResponse :=
           JsonBody \<lparr> metric = Some (sampleMetric\<lparr> metric_fields.beta := JUndefined \<rparr>) \<rparr> \<rparr>"

text \<open>The same symbol when Finnhub reports a beta of 0.\<close>

definition zeroBetaProvider :: provider where
  "zeroBetaProvider =
     sampleProvider
       \<lparr> metricResponse :=
           JsonBody \<lparr> metric = Some (sampleMetric\<lparr> metric_fields.beta := JNumber (Fin 0) \<rparr>) \<rparr> \<rparr>"

text \<open>The same symbol when Finnhub reports the beta as the string \<^verbatim>\<open>"0"\<close>.\<close>

definition zeroBetaTextProvider :: provider where
  "zeroBetaTextProvider =
     sampleProvider
       \<lparr> metricResponse :=
           JsonBody \<lparr> metric = Some (sampleMetric\<lparr> metric_fields.beta := JString ''0'' \<rparr>) \<rparr> \<rparr>"

text \<open>
  The same symbol when Finnhub reports a trailing EPS of 0 and the latest annual filing
  reports a net income of 93736000000.
\<close>

definition zeroEpsProvider :: provider where
  "zeroEpsProvider =
     sampleProvider
       \<lparr> metricResponse :=
           JsonBody \<lparr> metric = Some (sampleMetric\<lparr> epsTTM := JNumber (Fin 0) \<rparr>) \<rparr>,
         financialsResponse :=
           JsonBody \<lparr> data =
             Some [Element \<lparr> report =
                      Some \<lparr> ic = Some \<lparr> NetIncomeLoss = JNumber (Fin 93736000000) \<rparr> \<rparr> \<rparr>] \<rparr> \<rparr>"

text \<open>The same symbol when the latest annual filing reports a net income of 0.\<close>

definition zeroIncomeProvider :: provider where
  "zeroIncomeProvider =
     zeroEpsProvider
       \<lparr> financialsResponse :=
           JsonBody \<lparr> data =
             Some [Element \<lparr> report =
                      Some \<lparr> ic = Some \<lparr> NetIncomeLoss = JNumber (Fin 0) \<rparr> \<rparr> \<rparr>] \<rparr> \<rparr>"



text \<open>The providers know AAPL and no other symbol.\<close>

definition sampleWorld :: "string \<Rightarrow> provider" where
  "sampleWorld ticker = (if ticker = ''AAPL'' then sampleProvider else failingProvider)"

definition sampleParams :: params where
  "sampleParams =
     \<lparr> params.symbol = ''AAPL'',
       finnhubApiKey = ''finnhub-key'',
       alphaVantageApiKey = Some ''alpha-key'',
       market = None,
       marketGrowthRatePercent = JUndefined \<rparr>"

text \<open>The same request with an assumed market growth of 10 percent written out.\<close>

definition tenPercentParams :: params where
  "tenPercentParams = sampleParams\<lparr> params.marketGrowthRatePercent := JNumber (Fin 10) \<rparr>"


section \<open>Facts about the numbers\<close>

lemma isFinite_positive: "isFinite n \<Longrightarrow> \<not> jle n (Fin 0) \<Longrightarrow> \<exists>x. n = Fin x \<and> 0 < x"
  by (cases n) auto

lemma isFinite_nonzero: "isFinite n \<Longrightarrow> jneq n (Fin 0) \<Longrightarrow> \<exists>x. n = Fin x \<and> x \<noteq> 0"
  by (cases n) auto

lemma isFinite_gt: "isFinite n \<Longrightarrow> jlt (Fin 0) n \<Longrightarrow> \<exists>x. n = Fin x \<and> 0 < x"
  by (cases n) auto

lemma jneq_zero: "isFinite n \<Longrightarrow> jneq n (Fin 0) = (\<not> isZero n)"
  by (cases n) auto

lemma positive_cases: "jlt (Fin 0) n \<Longrightarrow> (\<exists>x. n = Fin x \<and> 0 < x) \<or> n = PInf"
  by (cases n) auto

lemma not_jle_zero: "n \<noteq> NaN \<Longrightarrow> \<not> jle n (Fin 0) \<Longrightarrow> jlt (Fin 0) n"
  by (cases n) auto


lemma jlt_zero_not_jle: "jlt (Fin 0) n \<Longrightarrow> \<not> jle n (Fin 0)"
  by (cases n) auto

subsection \<open>The nearest integer\<close>

lemma roundHalfEven_of_int: "roundHalfEven (of_int z) = z"
  by (simp add: roundHalfEven_def)

lemma roundHalfEven_le: "t \<le> of_int N \<Longrightarrow> roundHalfEven t \<le> N"
proof -
  assume le: "t \<le> of_int N"
  show ?thesis
  proof (cases "t = of_int N")
    case True
    then show ?thesis by (simp add: roundHalfEven_of_int)
  next
    case False
    with le have "t < of_int N" by simp
    then have "\<lfloor>t\<rfloor> < N" by (simp add: floor_less_iff)
    then show ?thesis by (simp add: roundHalfEven_def Let_def)
  qed
qed

lemma roundHalfEven_ge: "of_int N \<le> t \<Longrightarrow> N \<le> roundHalfEven t"
proof -
  assume "of_int N \<le> t"
  then have "N \<le> \<lfloor>t\<rfloor>" by (simp add: le_floor_iff)
  then show ?thesis by (simp add: roundHalfEven_def Let_def)
qed

lemma roundHalfEven_near: "t - 1 / 2 \<le> of_int (roundHalfEven t)"
proof -
  have "t < of_int \<lfloor>t\<rfloor> + 1" by linarith
  then show ?thesis by (simp add: roundHalfEven_def Let_def) linarith
qed

text \<open>The binary exponent.\<close>

lemma pow2_powr: "pow2 k = 2 powr of_int k"
  by (simp add: pow2_def powr_int)

lemma pow2_positive: "0 < pow2 k"
  by (simp add: pow2_powr)

lemma pow2_nat: "pow2 (int n) = 2 ^ n"
  by (simp add: pow2_def)

lemma pow2_neg: "pow2 (- int n) = 1 / 2 ^ n"
  by (simp add: pow2_powr powr_minus powr_realpow inverse_eq_divide)

lemma pow2_add: "pow2 (j + k) = pow2 j * pow2 k"
  by (simp add: pow2_powr powr_add)

lemma halvings_le: "x < 2 ^ Suc k \<Longrightarrow> halvings n x \<le> k"
proof (induction n arbitrary: x k)
  case 0
  show ?case by simp
next
  case (Suc n)
  show ?case
  proof (cases "2 \<le> x")
    case True
    with Suc.prems obtain j where k: "k = Suc j" by (cases k) auto
    with Suc.prems have "x / 2 < 2 ^ Suc j" by simp
    from Suc.IH [OF this] True k show ?thesis by simp
  next
    case False
    then show ?thesis by simp
  qed
qed

lemma halvings_lower: "1 \<le> x \<Longrightarrow> 2 ^ halvings n x \<le> x"
proof (induction n arbitrary: x)
  case 0
  then show ?case by simp
next
  case (Suc n)
  show ?case
  proof (cases "2 \<le> x")
    case True
    then have "1 \<le> x / 2" by simp
    from Suc.IH [OF this] True show ?thesis by simp
  next
    case False
    with Suc.prems show ?thesis by simp
  qed
qed

lemma halvings_upper: "x < 2 ^ n \<Longrightarrow> x < 2 ^ Suc (halvings n x)"
proof (induction n arbitrary: x)
  case 0
  then show ?case by simp
next
  case (Suc n)
  show ?case
  proof (cases "2 \<le> x")
    case True
    from Suc.prems have "x / 2 < 2 ^ n" by simp
    from Suc.IH [OF this] True show ?thesis by simp
  next
    case False
    then show ?thesis by simp
  qed
qed

lemma doublings_ge: "x * 2 ^ j < 1 \<Longrightarrow> 0 < x \<Longrightarrow> j < n \<Longrightarrow> Suc j \<le> doublings n x"
proof (induction n arbitrary: x j)
  case 0
  then show ?case by simp
next
  case (Suc n)
  have "x * 1 \<le> x * 2 ^ j" using Suc.prems(2) by (intro mult_left_mono) simp_all
  with Suc.prems(1) have x1: "x < 1" by simp
  show ?case
  proof (cases j)
    case 0
    with x1 show ?thesis by simp
  next
    case (Suc i)
    with Suc.prems have "x * 2 * 2 ^ i < 1" "0 < x * 2" "i < n" by simp_all
    from Suc.IH [OF this] x1 Suc show ?thesis by simp
  qed
qed

lemma doublings_lower: "1 \<le> x * 2 ^ n \<Longrightarrow> 1 \<le> x * 2 ^ doublings n x"
proof (induction n arbitrary: x)
  case 0
  then show ?case by simp
next
  case (Suc n)
  show ?case
  proof (cases "x < 1")
    case True
    from Suc.prems have "1 \<le> x * 2 * 2 ^ n" by simp
    from Suc.IH [OF this] True show ?thesis by simp
  next
    case False
    then show ?thesis by simp
  qed
qed

lemma doublings_upper: "x < 1 \<Longrightarrow> 0 < n \<Longrightarrow> x * 2 ^ doublings n x < 2"
proof (induction n arbitrary: x)
  case 0
  then show ?case by simp
next
  case (Suc n)
  show ?case
  proof (cases "x * 2 < 1 \<and> 0 < n")
    case True
    then have "x * 2 * 2 ^ doublings n (x * 2) < 2" by (intro Suc.IH) simp_all
    with Suc.prems(1) show ?thesis by simp
  next
    case False
    then have "doublings n (x * 2) = 0" by (cases n) auto
    with Suc.prems(1) show ?thesis by simp
  qed
qed

text \<open>Within the 1100 steps, \<open>binade\<close> is the binary exponent.\<close>

lemma binade_exponent:
  assumes "pow2 (- 1100) \<le> x" and "x < pow2 1100"
  shows "pow2 (binade x) \<le> x \<and> x < pow2 (binade x + 1)"
proof (cases "1 \<le> x")
  case True
  have "x < 2 ^ 1100" using assms(2) pow2_nat [of 1100] by simp
  from halvings_upper [OF this] halvings_lower [OF True, of 1100]
  have "pow2 (int (halvings 1100 x)) \<le> x" "x < pow2 (int (Suc (halvings 1100 x)))"
    unfolding pow2_nat by simp_all
  then show ?thesis using True by (simp add: binade_def add.commute)
next
  case False
  then have x1: "x < 1" by simp
  have "1 \<le> x * 2 ^ 1100" using assms(1) pow2_neg [of 1100] by (simp add: field_simps)
  from doublings_lower [OF this] have lo: "1 \<le> x * 2 ^ doublings 1100 x" .
  have up: "x * 2 ^ doublings 1100 x < 2" using x1 by (intro doublings_upper) simp_all
  have d: "0 < doublings 1100 x"
  proof (rule ccontr)
    assume "\<not> 0 < doublings 1100 x"
    with lo x1 show False by simp
  qed
  then obtain j where j: "doublings 1100 x = Suc j" by (cases "doublings 1100 x") auto
  have b: "binade x = - int (Suc j)" using x1 j by (simp add: binade_def)
  have "pow2 (- int (Suc j)) \<le> x" using lo unfolding j pow2_neg by (simp add: field_simps)
  moreover have "- int (Suc j) + 1 = - int j" by simp
  moreover have "x < pow2 (- int j)" using up unfolding j pow2_neg by (simp add: field_simps)
  ultimately show ?thesis unfolding b by simp
qed

lemma binade_below:
  assumes x: "0 < x" "x < pow2 K" and K: "- 1021 \<le> K"
  shows "binade x \<le> K - 1"
proof (cases "1 \<le> x")
  case True
  have K1: "1 \<le> K"
  proof (rule ccontr)
    assume "\<not> 1 \<le> K"
    then have "pow2 K \<le> 1" by (simp add: pow2_def)
    with True x(2) show False by simp
  qed
  define k where "k = nat (K - 1)"
  have k: "K = int (Suc k)" using K1 by (simp add: k_def)
  from x(2) have "x < 2 ^ Suc k" unfolding k pow2_nat .
  from halvings_le [OF this, of 1100] True show ?thesis unfolding k by (simp add: binade_def)
next
  case False
  then have b: "binade x = - int (doublings 1100 x)" by (simp add: binade_def)
  show ?thesis
  proof (cases "1 \<le> K")
    case True
    then show ?thesis unfolding b by simp
  next
    case notpos: False
    define j where "j = nat (- K)"
    have j: "K = - int j" "j < 1100" using notpos K by (simp_all add: j_def)
    from x(2) have "x * 2 ^ j < 1" unfolding j(1) pow2_neg by (simp add: field_simps)
    from doublings_ge [OF this x(1) j(2)] show ?thesis unfolding b j(1) by simp
  qed
qed

lemma binade_above:
  assumes "1 \<le> x"
  shows "0 \<le> binade x \<and> pow2 (binade x) \<le> x"
  using halvings_lower [OF assms, of 1100] assms by (simp add: binade_def pow2_nat)

subsection \<open>Rounding\<close>

lemma round64_not_NaN: "round64 v \<noteq> NaN"
  by (simp add: round64_def Let_def signedInf_def signedZero_def)

lemma round64_positive:
  assumes "0 < v"
  shows "(\<exists>r. round64 v = Fin r \<and> 0 \<le> r) \<or> round64 v = PInf"
proof -
  let ?u = "pow2 (ulpExponent v)"
  have "0 \<le> v / ?u" using assms pow2_positive [of "ulpExponent v"] by simp
  then have "0 \<le> roundHalfEven (v / ?u)" using roundHalfEven_ge [of 0 "v / ?u"] by simp
  then have "0 \<le> of_int (roundHalfEven (v / ?u)) * ?u"
    using pow2_positive [of "ulpExponent v"] by simp
  then show ?thesis using assms
    by (simp add: round64_def Let_def signedInf_def signedZero_def)
qed

lemma round64_negative:
  assumes "v < 0"
  shows "(\<exists>r. round64 v = Fin r \<and> r < 0) \<or> round64 v = NegZero \<or> round64 v = NInf"
proof -
  let ?u = "pow2 (ulpExponent v)"
  have u: "0 < ?u" by (rule pow2_positive)
  have "v / ?u \<le> 0" using assms u by (simp add: divide_nonpos_pos)
  then have "roundHalfEven (v / ?u) \<le> 0" using roundHalfEven_le [of "v / ?u" 0] by simp
  then have "of_int (roundHalfEven (v / ?u)) * ?u \<le> 0"
    using u by (simp add: mult_nonpos_nonneg)
  then have "of_int (roundHalfEven (v / ?u)) * ?u = 0 \<or> of_int (roundHalfEven (v / ?u)) * ?u < 0"
    by linarith
  then show ?thesis using assms
    by (auto simp add: round64_def Let_def signedInf_def signedZero_def)
qed

text \<open>
  A dyadic number \<open>m / 2 ^ n\<close> with a significand \<open>m\<close> of at most 53 bits is a multiple
  of the unit in the last place of every value that is not larger in magnitude.
\<close>

lemma dyadic_on_grid:
  assumes y: "y = of_int m / 2 ^ n" and m: "m \<noteq> 0" "\<bar>m\<bar> < 2 ^ 53" and n: "n \<le> 1074"
    and x: "x \<noteq> 0" "\<bar>x\<bar> \<le> \<bar>y\<bar>"
  shows "\<exists>z. y = of_int z * pow2 (ulpExponent x)"
proof -
  have xpos: "0 < \<bar>x\<bar>" using x by simp
  have "\<bar>y\<bar> = \<bar>of_int m\<bar> / 2 ^ n" using y by (simp add: abs_divide)
  also have "\<dots> < 2 ^ 53 / 2 ^ n"
  proof -
    have "\<bar>of_int m :: real\<bar> < 2 ^ 53"
      using m(2) by (metis of_int_abs of_int_less_numeral_power_cancel_iff)
    then show ?thesis by (simp add: divide_strict_right_mono)
  qed
  also have "\<dots> = pow2 (53 - int n)"
    by (simp add: pow2_powr powr_diff powr_realpow)
  finally have "\<bar>y\<bar> < pow2 (53 - int n)" .
  with x(2) have "\<bar>x\<bar> < pow2 (53 - int n)" by simp
  from binade_below [OF xpos this] n have "binade \<bar>x\<bar> \<le> 52 - int n" by simp
  then have le: "ulpExponent x \<le> - int n" using n by (simp add: ulpExponent_def)
  define d where "d = nat (- int n - ulpExponent x)"
  have d: "int d = - int n - ulpExponent x" using le by (simp add: d_def)
  have "of_int (m * 2 ^ d) * pow2 (ulpExponent x)
        = of_int m * (pow2 (int d) * pow2 (ulpExponent x))"
    by (simp add: pow2_nat)
  also have "pow2 (int d) * pow2 (ulpExponent x) = pow2 (- int n)"
    unfolding pow2_add [symmetric] d by simp
  also have "of_int m * pow2 (- int n) = y"
    using y by (simp add: pow2_def)
  finally show ?thesis by (intro exI [of _ "m * 2 ^ d"]) simp
qed

lemma dyadic_bound:
  fixes y :: real
  assumes y: "y = of_int m / 2 ^ n" and m: "\<bar>m\<bar> < 2 ^ 53"
  shows "\<bar>y\<bar> < overflowThreshold"
proof -
  have "\<bar>of_int m :: real\<bar> < 2 ^ 53"
    using m by (metis of_int_abs of_int_less_numeral_power_cancel_iff)
  moreover have "\<bar>y\<bar> \<le> \<bar>of_int m :: real\<bar>"
  proof -
    have "(1::real) \<le> 2 ^ n" by simp
    then have "\<bar>of_int m :: real\<bar> * 1 \<le> \<bar>of_int m\<bar> * 2 ^ n"
      by (intro mult_left_mono) simp_all
    then show ?thesis using y by (simp add: abs_divide divide_le_eq)
  qed
  moreover have "(2::real) ^ 53 \<le> 2 ^ 1024" by (rule power_increasing) simp_all
  ultimately show ?thesis unfolding overflowThreshold_def by linarith
qed

text \<open>Such a dyadic number is a double: rounding leaves it unchanged.\<close>

lemma round64_exact:
  assumes y: "y = of_int m / 2 ^ n" and m: "m \<noteq> 0" "\<bar>m\<bar> < 2 ^ 53" and n: "n \<le> 1074"
  shows "round64 y = Fin y"
proof -
  have y0: "y \<noteq> 0" using y m by simp
  obtain z where z: "y = of_int z * pow2 (ulpExponent y)"
    using dyadic_on_grid [OF y m n y0] by auto
  let ?u = "pow2 (ulpExponent y)"
  have u: "?u \<noteq> 0" using pow2_positive [of "ulpExponent y"] by simp
  have "y / ?u = of_int z" using z u by (metis nonzero_mult_div_cancel_right)
  then have "of_int (roundHalfEven (y / ?u)) * ?u = y"
    using z by (simp add: roundHalfEven_of_int)
  moreover have "\<not> overflowThreshold \<le> \<bar>y\<bar>" using dyadic_bound [OF y m(2)] by simp
  ultimately show ?thesis using y0 by (simp add: round64_def Let_def)
qed

text \<open>The literals of the source that are written \<open>Fin\<close> are doubles.\<close>

lemma exact_literals:
  "numberLiteral 1 = Fin 1 \<and> numberLiteral 10 = Fin 10 \<and> numberLiteral 13.5 = Fin 13.5 \<and>
   numberLiteral 29 = Fin 29 \<and> numberLiteral 100 = Fin 100 \<and> numberLiteral 0 = Fin 0"
  using round64_exact [of 1 1 0] round64_exact [of 10 10 0] round64_exact [of "27 / 2" 27 1]
    round64_exact [of 29 29 0] round64_exact [of 100 100 0]
  by (simp add: numberLiteral_def round64_def)

text \<open>Rounding a positive value does not pass a double above it.\<close>

lemma round64_upper:
  assumes y: "y = of_int m / 2 ^ n" and m: "m \<noteq> 0" "\<bar>m\<bar> < 2 ^ 53" and n: "n \<le> 1074"
    and v: "0 < v" "v \<le> y"
  shows "\<exists>r. round64 v = Fin r \<and> 0 \<le> r \<and> r \<le> y"
proof -
  have v0: "v \<noteq> 0" "\<bar>v\<bar> \<le> \<bar>y\<bar>" using v by simp_all
  obtain z where z: "y = of_int z * pow2 (ulpExponent v)"
    using dyadic_on_grid [OF y m n v0] by auto
  let ?u = "pow2 (ulpExponent v)"
  let ?r = "of_int (roundHalfEven (v / ?u)) * ?u"
  have u: "0 < ?u" by (rule pow2_positive)
  have "v / ?u \<le> y / ?u" using v u by (simp add: divide_right_mono)
  also have "y / ?u = of_int z" using z u by (metis less_irrefl nonzero_mult_div_cancel_right)
  finally have "roundHalfEven (v / ?u) \<le> z" by (rule roundHalfEven_le)
  then have "?r \<le> of_int z * ?u" using u by (simp add: mult_right_mono)
  then have le: "?r \<le> y" using z by simp
  have "0 \<le> v / ?u" using v u by simp
  then have "0 \<le> roundHalfEven (v / ?u)" using roundHalfEven_ge [of 0 "v / ?u"] by simp
  then have ge: "0 \<le> ?r" using u by simp
  have "\<bar>?r\<bar> < overflowThreshold" using le ge dyadic_bound [OF y m(2)] by linarith
  then show ?thesis using v0 v le ge
    by (simp add: round64_def Let_def signedZero_def)
qed

text \<open>Rounding a value that is at least 1 loses at most the relative error \<open>1 / 2 ^ 53\<close>.\<close>

lemma round64_lower:
  assumes "1 \<le> v"
  shows "(\<exists>r. round64 v = Fin r \<and> v - v / 2 ^ 53 \<le> r) \<or> round64 v = PInf"
proof -
  let ?e = "binade \<bar>v\<bar>"
  let ?u = "pow2 (ulpExponent v)"
  let ?r = "of_int (roundHalfEven (v / ?u)) * ?u"
  have v: "0 < v" "\<bar>v\<bar> = v" using assms by simp_all
  from binade_above [OF assms] have e0: "0 \<le> ?e" and pe: "pow2 ?e \<le> v" unfolding v by simp_all
  have ue: "ulpExponent v = ?e - 52" using e0 by (simp add: ulpExponent_def)
  have "pow2 ?e = pow2 (?e - 52) * pow2 52" unfolding pow2_add [symmetric] by simp
  then have "?u = pow2 ?e / 2 ^ 52" unfolding ue by (simp add: pow2_def)
  with pe have u: "?u \<le> v / 2 ^ 52" by (simp add: divide_right_mono)
  have upos: "0 < ?u" by (rule pow2_positive)
  have "v / ?u - 1 / 2 \<le> of_int (roundHalfEven (v / ?u))" by (rule roundHalfEven_near)
  then have "(v / ?u - 1 / 2) * ?u \<le> ?r" using upos by (simp only: mult_right_mono less_imp_le)
  moreover have "(v / ?u - 1 / 2) * ?u = v - ?u / 2" using upos by (simp add: field_simps)
  ultimately have "v - ?u / 2 \<le> ?r" by simp
  with u have low: "v - v / 2 ^ 53 \<le> ?r" by simp
  have "0 < v - v / 2 ^ 53" using v(1) by (simp add: field_simps)
  with low have pos: "0 < ?r" by linarith
  define r where "r = ?r"
  have eq: "round64 v = (if overflowThreshold \<le> \<bar>r\<bar> then PInf else Fin r)"
    using v(1) pos unfolding r_def by (simp add: round64_def Let_def signedInf_def signedZero_def)
  show ?thesis
  proof (cases "overflowThreshold \<le> \<bar>r\<bar>")
    case True
    then show ?thesis unfolding eq by simp
  next
    case False
    then have "round64 v = Fin r" unfolding eq by simp
    moreover have "v - v / 2 ^ 53 \<le> r" unfolding r_def by (rule low)
    ultimately show ?thesis by blast
  qed
qed

text \<open>A value that reaches the overflow threshold rounds to Infinity.\<close>

lemma round64_overflow:
  assumes "overflowThreshold \<le> v"
  shows "round64 v = PInf"
proof -
  let ?e = "binade \<bar>v\<bar>"
  let ?u = "pow2 (ulpExponent v)"
  let ?r = "of_int (roundHalfEven (v / ?u)) * ?u"
  have t: "overflowThreshold = pow2 1024" by (simp add: overflowThreshold_def pow2_def)
  have "(1::real) \<le> 2 ^ 1024" by simp
  with assms have v1: "1 \<le> v" unfolding overflowThreshold_def by linarith
  then have v: "0 < v" "\<bar>v\<bar> = v" by simp_all
  from binade_above [OF v1] have e0: "0 \<le> ?e" and pe: "pow2 ?e \<le> v" unfolding v by simp_all
  have ue: "ulpExponent v = ?e - 52" using e0 by (simp add: ulpExponent_def)
  have upos: "0 < ?u" by (rule pow2_positive)
  define N where "N = (if 1024 \<le> ?e then (2::int) ^ 52 else 2 ^ nat (1076 - ?e))"
  have Nu: "of_int N * ?u = (if 1024 \<le> ?e then pow2 ?e else overflowThreshold)"
  proof (cases "1024 \<le> ?e")
    case True
    have "pow2 ?e = pow2 52 * pow2 (?e - 52)" unfolding pow2_add [symmetric] by simp
    with True show ?thesis unfolding N_def ue by (simp add: pow2_def)
  next
    case False
    then have "of_int N = pow2 (1076 - ?e)" unfolding N_def by (simp add: pow2_def)
    then have "of_int N * ?u = pow2 (1076 - ?e + (?e - 52))" unfolding ue pow2_add by simp
    with False show ?thesis unfolding t by simp
  qed
  have thr: "overflowThreshold \<le> of_int N * ?u"
  proof (cases "1024 \<le> ?e")
    case True
    have "pow2 ?e = pow2 1024 * pow2 (?e - 1024)" unfolding pow2_add [symmetric] by simp
    moreover have "1 \<le> pow2 (?e - 1024)" using True by (simp add: pow2_def)
    ultimately have "pow2 1024 * 1 \<le> pow2 ?e"
      using pow2_positive [of 1024] by (simp only: mult_left_mono less_imp_le)
    with True show ?thesis unfolding Nu t by simp
  next
    case False
    then show ?thesis unfolding Nu by simp
  qed
  have "of_int N * ?u \<le> v"
  proof (cases "1024 \<le> ?e")
    case True
    with pe show ?thesis unfolding Nu by simp
  next
    case False
    with assms show ?thesis unfolding Nu by simp
  qed
  then have "of_int N \<le> v / ?u" using upos by (simp add: pos_le_divide_eq)
  then have "N \<le> roundHalfEven (v / ?u)" by (rule roundHalfEven_ge)
  then have "of_int N * ?u \<le> ?r" using upos by (simp add: mult_right_mono)
  with thr have big: "overflowThreshold \<le> ?r" by linarith
  have "0 < overflowThreshold" by (simp add: overflowThreshold_def)
  with big have "overflowThreshold \<le> \<bar>?r\<bar>" by linarith
  then show ?thesis using v(1) by (simp add: round64_def Let_def signedInf_def)
qed

subsection \<open>The operators\<close>

lemma jneg_not_NaN: "a \<noteq> NaN \<Longrightarrow> jneg a \<noteq> NaN"
  by (cases a) auto

lemma jadd_not_NaN:
  "a \<noteq> NaN \<Longrightarrow> b \<noteq> NaN \<Longrightarrow> \<not> (isInfinite a \<and> isInfinite b) \<Longrightarrow> jadd a b \<noteq> NaN"
  by (simp add: jadd_def round64_not_NaN signedZero_def)

lemma jsub_one_not_NaN: "a \<noteq> NaN \<Longrightarrow> jsub a (Fin 1) \<noteq> NaN"
  unfolding jsub_def by (rule jadd_not_NaN) simp_all

lemma jmul_not_NaN:
  "a \<noteq> NaN \<Longrightarrow> b \<noteq> NaN \<Longrightarrow> \<not> isZero a \<Longrightarrow> \<not> isZero b \<Longrightarrow> jmul a b \<noteq> NaN"
  by (simp add: jmul_def round64_not_NaN signedInf_def)

lemma jdiv_not_NaN:
  "a \<noteq> NaN \<Longrightarrow> b \<noteq> NaN \<Longrightarrow> \<not> isZero a \<Longrightarrow> \<not> isInfinite a \<Longrightarrow> jdiv a b \<noteq> NaN"
  by (simp add: jdiv_def round64_not_NaN signedInf_def signedZero_def)

text \<open>The growth rate \<^verbatim>\<open>estimatedEps / actualEps - 1\<close> of a positive estimate.\<close>

lemma growth_not_NaN:
  assumes "0 < e" and "isFinite a"
  shows "jsub (jdiv (Fin e) a) (Fin 1) \<noteq> NaN"
proof -
  have "a \<noteq> NaN" using assms(2) by auto
  then have "jdiv (Fin e) a \<noteq> NaN" using assms(1) by (intro jdiv_not_NaN) simp_all
  then show ?thesis by (rule jsub_one_not_NaN)
qed

lemma growth_nonpositive:
  assumes "0 < e" and "e \<le> a"
  shows "jle (jsub (jdiv (Fin e) (Fin a)) (Fin 1)) (Fin 0)"
proof -
  have a: "0 < a" using assms by linarith
  have "0 < e / a" "e / a \<le> 1" using assms a by simp_all
  from round64_upper [of 1 1 0 "e / a", OF _ _ _ _ this]
  obtain r where r: "round64 (e / a) = Fin r" "0 \<le> r" "r \<le> 1" by auto
  have q: "jdiv (Fin e) (Fin a) = Fin r"
    using assms a r(1) by (simp add: jdiv_def)
  show ?thesis
  proof (cases "r = 1")
    case True
    then show ?thesis unfolding q by (simp add: jsub_def jadd_def)
  next
    case False
    with r have neg: "r - 1 < 0" by simp
    have "jsub (Fin r) (Fin 1) = round64 (r - 1)"
      using neg by (simp add: jsub_def jadd_def)
    with round64_negative [OF neg] show ?thesis unfolding q by auto
  qed
qed

lemma growth_negative_zero: "0 < e \<Longrightarrow> jsub (jdiv (Fin e) NegZero) (Fin 1) = NInf"
  by (simp add: jsub_def jdiv_def jadd_def signedInf_def)


text \<open>The PEG \<^verbatim>\<open>pe / (growthRateDecimal * 100)\<close> of a finite positive PE and a positive growth.\<close>

lemma peg_not_NaN:
  assumes "isFinite q" and "jlt (Fin 0) q" and "jlt (Fin 0) g"
  shows "jdiv q (jmul g (Fin 100)) \<noteq> NaN"
proof -
  from isFinite_gt [OF assms(1,2)] obtain x where q: "q = Fin x" "0 < x" by auto
  have g: "g \<noteq> NaN" "\<not> isZero g" using assms(3) by (cases g; simp)+
  have "jmul g (Fin 100) \<noteq> NaN" using g by (intro jmul_not_NaN) simp_all
  then show ?thesis unfolding q using q(2) by (intro jdiv_not_NaN) simp_all
qed

text \<open>The benchmark 29 / 13.5 is not 29 / 10.\<close>

lemma benchmark_differs: "jdiv (Fin 29) (Fin 13.5) \<noteq> jdiv (Fin 29) (Fin 10)"
proof -
  have "(0::real) < 58 / 27" "(58::real) / 27 \<le> 5 / 2" by simp_all
  from round64_upper [of "5 / 2" 5 1 "58 / 27", OF _ _ _ _ this]
  obtain r where r: "round64 (58 / 27) = Fin r" "r \<le> 5 / 2" by auto
  have a: "jdiv (Fin 29) (Fin 13.5) = Fin r" using r(1) by (simp add: jdiv_def)
  have b: "jdiv (Fin 29) (Fin 10) = round64 (29 / 10)" by (simp add: jdiv_def)
  from round64_lower [of "29 / 10"]
  have "(\<exists>s. round64 (29 / 10) = Fin s \<and> 5 / 2 < s) \<or> round64 (29 / 10) = PInf"
    by auto
  with r(2) show ?thesis unfolding a b by auto
qed

subsection \<open>The arithmetic of the samples\<close>

lemma sample_growth: "jsub (jdiv (Fin 6) (Fin 4)) (Fin 1) = Fin (1 / 2)"
  using round64_exact [of "3 / 2" 3 1] round64_exact [of "1 / 2" 1 1]
  by (simp add: jsub_def jdiv_def jadd_def)

lemma sample_peg: "jdiv (Fin 25) (jmul (Fin (1 / 2)) (Fin 100)) = Fin (1 / 2)"
  using round64_exact [of 50 50 0] round64_exact [of "1 / 2" 1 1]
  by (simp add: jmul_def jdiv_def)

lemma declining_growth: "jsub (jdiv (Fin 3) (Fin 4)) (Fin 1) = Fin (- (1 / 4))"
  using round64_exact [of "3 / 4" 3 2] round64_exact [of "- (1 / 4)" "- 1" 2]
  by (simp add: jsub_def jdiv_def jadd_def)

lemma declining_pe: "jdiv (Fin (601 / 4)) (Fin 4) = Fin (601 / 16)"
  using round64_exact [of "601 / 16" 601 4]
  by (simp add: jdiv_def)

text \<open>A product that overflows: the fair value at a price of \<open>2 ^ 1023\<close>.\<close>

lemma overflow_product:
  assumes "n = PInf \<or> (\<exists>r. n = Fin r \<and> 2 \<le> r)"
  shows "jmul (Fin (2 ^ 1023)) n = PInf"
proof (rule disjE [OF assms])
  assume "n = PInf"
  then show ?thesis by (simp add: jmul_def signedInf_def)
next
  assume "\<exists>r. n = Fin r \<and> 2 \<le> r"
  then obtain r where r: "n = Fin r" "2 \<le> r" by auto
  have "(2::real) ^ 1023 * 2 \<le> 2 ^ 1023 * r" using r(2) by (intro mult_left_mono) simp_all
  then have "overflowThreshold \<le> 2 ^ 1023 * r" by (simp add: overflowThreshold_def)
  from round64_overflow [OF this] r show ?thesis by (simp add: jmul_def)
qed

lemma huge_price_arith:
  "jmul (Fin (2 ^ 1023))
     (jdiv (jadd (jdiv (Fin 29) (Fin 13.5))
              (jmul (jmul (jsub (Fin 1) (Fin 1)) (numberLiteral 0.7))
                 (jdiv (Fin 29) (Fin 13.5))))
        (Fin 0.5)) = PInf"
proof -
  have "(0::real) < 58 / 27" "(58::real) / 27 \<le> 5 / 2" by simp_all
  from round64_upper [of "5 / 2" 5 1 "58 / 27", OF _ _ _ _ this]
  obtain r1 where r1: "round64 (58 / 27) = Fin r1" "r1 \<le> 5 / 2" by auto
  from round64_lower [of "58 / 27"] r1(1) have r1l: "21 / 10 \<le> r1" by auto
  have mp: "jdiv (Fin 29) (Fin 13.5) = Fin r1" using r1(1) by (simp add: jdiv_def)
  have "(0::real) < 7 / 10" "(7::real) / 10 \<le> 1" by simp_all
  from round64_upper [of 1 1 0 "7 / 10", OF _ _ _ _ this]
  obtain l where l: "round64 (7 / 10) = Fin l" "0 \<le> l" by auto
  have z: "jmul (jmul (jsub (Fin 1) (Fin 1)) (numberLiteral 0.7)) (Fin r1) = Fin 0"
    using l r1l by (simp add: jsub_def jadd_def jmul_def numberLiteral_def signedZero_def)
  have s: "jadd (Fin r1) (Fin 0) = round64 r1" using r1l by (simp add: jadd_def)
  have "1 \<le> r1" using r1l by simp
  from round64_lower [OF this]
  have s2: "round64 r1 = PInf \<or> (\<exists>r. round64 r1 = Fin r \<and> 2 \<le> r)"
  proof
    assume "\<exists>r. round64 r1 = Fin r \<and> r1 - r1 / 2 ^ 53 \<le> r"
    then obtain r where r: "round64 r1 = Fin r" "r1 - r1 / 2 ^ 53 \<le> r" by auto
    have "2 \<le> r1 - r1 / 2 ^ 53" using r1l by simp
    with r show ?thesis by auto
  next
    assume "round64 r1 = PInf" then show ?thesis by simp
  qed
  have q: "jdiv (round64 r1) (Fin 0.5) = PInf \<or>
           (\<exists>r. jdiv (round64 r1) (Fin 0.5) = Fin r \<and> 2 \<le> r)"
  proof (rule disjE [OF s2])
    assume "round64 r1 = PInf"
    then show ?thesis by (simp add: jdiv_def signedInf_def)
  next
    assume "\<exists>r. round64 r1 = Fin r \<and> 2 \<le> r"
    then obtain r where r: "round64 r1 = Fin r" "2 \<le> r" by auto
    have d: "jdiv (Fin r) (Fin 0.5) = round64 (r * 2)" using r(2) by (simp add: jdiv_def)
    have "1 \<le> r * 2" using r(2) by simp
    from round64_lower [OF this] show ?thesis unfolding r(1) d
    proof
      assume "\<exists>t. round64 (r * 2) = Fin t \<and> r * 2 - r * 2 / 2 ^ 53 \<le> t"
      then obtain t where t: "round64 (r * 2) = Fin t" "r * 2 - r * 2 / 2 ^ 53 \<le> t" by auto
      have "2 \<le> r * 2 - r * 2 / 2 ^ 53" using r(2) by simp
      with t show "round64 (r * 2) = PInf \<or> (\<exists>t. round64 (r * 2) = Fin t \<and> 2 \<le> t)" by auto
    next
      assume "round64 (r * 2) = PInf"
      then show "round64 (r * 2) = PInf \<or> (\<exists>t. round64 (r * 2) = Fin t \<and> 2 \<le> t)" by simp
    qed
  qed
  show ?thesis unfolding mp z s by (rule overflow_product [OF q])
qed

lemmas sample_arith =
  sample_growth sample_peg declining_growth declining_pe growth_negative_zero

section \<open>What \<^verbatim>\<open>getStockData\<close> and the estimate resolver return\<close>

lemma fetchCurrentPrice_Inr:
  "fetchCurrentPrice B q t = Inr p \<Longrightarrow> \<exists>x. p = Fin x \<and> 0 < x"
  unfolding fetchCurrentPrice_def Let_def
  by (auto split: sum.splits option.splits if_splits intro: isFinite_positive)

lemma netIncomeOf_Some:
  "netIncomeOf B fl = (Some n, w) \<Longrightarrow>
     (\<exists>x. n = Fin x \<and> x \<noteq> 0) \<and>
     w = [''Actual EPS derived from reported net income (not per share basis).'']"
  unfolding netIncomeOf_def Let_def
  by (auto split: option.splits if_splits dest: isFinite_nonzero)

lemma fetchFinancials_Some:
  "fetchFinancials B f = (Some n, w) \<Longrightarrow>
     (\<exists>x. n = Fin x \<and> x \<noteq> 0) \<and>
     w = [''Actual EPS derived from reported net income (not per share basis).'']"
  unfolding fetchFinancials_def
  by (auto split: sum.splits option.splits list.splits element.splits dest: netIncomeOf_Some)

lemma getStockData_Inr:
  assumes "getStockData B P t = Inr sd"
  shows "(\<exists>x. price sd = Fin x \<and> 0 < x) \<and> stockData.estimatedEps sd = None"
  using assms unfolding getStockData_def Let_def
  by (auto split: sum.splits prod.splits dest!: fetchCurrentPrice_Inr)

lemma scanEstimates_Some:
  "scanEstimates B es = Inr (Some a) \<Longrightarrow> \<exists>x. eps a = Fin x \<and> 0 < x"
proof (induction B es rule: scanEstimates.induct)
  case (4 B estimate rest)
  then show ?case
    by (auto simp: Let_def split: if_splits dest: isFinite_gt)
qed simp_all

lemma getEstimated_Inr:
  "\<exists>found. getEstimatedEpsFromAlphaVantage B h = Inr found \<and>
     (found = None \<or> (\<exists>a x. found = Some a \<and> eps a = Fin x \<and> 0 < x))"
proof (cases "estimatesTry B h")
  case (Inl e)
  then show ?thesis by (simp add: getEstimatedEpsFromAlphaVantage_def)
next
  case (Inr found)
  have "found = None \<or> (\<exists>a x. found = Some a \<and> eps a = Fin x \<and> 0 < x)"
  proof (cases found)
    case None then show ?thesis by simp
  next
    case (Some a)
    with Inr have "\<exists>es. scanEstimates B es = Inr (Some a)"
      unfolding estimatesTry_def
      by (auto split: sum.splits option.splits if_splits estimates_value.splits)
    with Some show ?thesis by (auto dest: scanEstimates_Some)
  qed
  with Inr show ?thesis by (simp add: getEstimatedEpsFromAlphaVantage_def)
qed

section \<open>The steps of the valuation\<close>

lemma pegSteps_frame:
  "marketPe (pegSteps r) = marketPe r \<and> marketPeg (pegSteps r) = marketPeg r \<and>
   beta (pegSteps r) = beta r \<and> currentPrice (pegSteps r) = currentPrice r \<and>
   actualEps (pegSteps r) = actualEps r \<and> estimatedEps (pegSteps r) = estimatedEps r \<and>
   growthRate (pegSteps r) = growthRate r \<and> stockPe (pegSteps r) = stockPe r \<and>
   betaFallbackUsed (pegSteps r) = betaFallbackUsed r \<and>
   assumptions (pegSteps r) = assumptions r \<and>
   result.symbol (pegSteps r) = result.symbol r"
  unfolding pegSteps_def Let_def by simp

lemma valuationSteps_frame:
  "marketPe (valuationSteps sd r) = marketPe r \<and> marketPeg (valuationSteps sd r) = marketPeg r \<and>
   beta (valuationSteps sd r) = beta r \<and> currentPrice (valuationSteps sd r) = currentPrice r \<and>
   actualEps (valuationSteps sd r) = actualEps r \<and>
   estimatedEps (valuationSteps sd r) = estimatedEps r \<and>
   betaFallbackUsed (valuationSteps sd r) = betaFallbackUsed r \<and>
   assumptions (valuationSteps sd r) = assumptions r \<and>
   result.symbol (valuationSteps sd r) = result.symbol r"
  unfolding valuationSteps_def Let_def by (simp add: pegSteps_frame)

lemma pegSteps_failure:
  "fairValue r = None \<Longrightarrow> \<not> valuationPossible (pegSteps r) \<Longrightarrow> fairValue (pegSteps r) = None"
  unfolding pegSteps_def Let_def by (simp split: if_splits)

lemma valuationSteps_failure:
  "fairValue r = None \<Longrightarrow> \<not> valuationPossible (valuationSteps sd r)
     \<Longrightarrow> fairValue (valuationSteps sd r) = None"
  unfolding valuationSteps_def Let_def
  by (auto split: if_splits intro: pegSteps_failure)

lemma calculatePeg_Some:
  assumes "calculatePeg spe g = Some s"
  shows "\<exists>q. spe = Some q \<and> isFinite q \<and> \<not> jle q (Fin 0) \<and>
             s = jdiv q (jmul (ToNumber g) (Fin 100))"
  using assms unfolding calculatePeg_def by (cases spe) (auto split: if_splits)

lemma pegSteps_success:
  assumes vp: "valuationPossible (pegSteps r)"
      and g: "growthRate r = Some G" "G \<noteq> NaN"
  shows "\<exists>q. stockPe r = Some q \<and> isFinite q \<and> jlt (Fin 0) q \<and> jlt (Fin 0) G \<and>
             jlt (Fin 0) (jdiv q (jmul G (Fin 100))) \<and>
             stockPeg (pegSteps r) = Some (jdiv q (jmul G (Fin 100))) \<and>
             fairValue (pegSteps r) =
               Some (jmul (ToNumber (currentPrice r))
                      (jdiv (jadd (ToNumber (marketPeg r))
                               (jmul (jmul (jsub (ToNumber (beta r)) (Fin 1)) (numberLiteral 0.7))
                                  (ToNumber (marketPeg r))))
                         (jdiv q (jmul G (Fin 100)))))"
proof -
  from vp have gate: "\<not> jle G (Fin 0)"
    unfolding pegSteps_def Let_def using g(1) by (auto split: if_splits)
  from vp obtain s where s: "calculatePeg (stockPe r) (growthRate r) = Some s" "\<not> jle s (Fin 0)"
    unfolding pegSteps_def Let_def by (auto split: if_splits)
  from calculatePeg_Some [OF s(1)] obtain q where
    q: "stockPe r = Some q" "isFinite q" "\<not> jle q (Fin 0)"
       "s = jdiv q (jmul (ToNumber (growthRate r)) (Fin 100))"
    by blast
  have sv: "s = jdiv q (jmul G (Fin 100))" using q(4) g(1) by simp
  have Gp: "jlt (Fin 0) G" using g(2) gate by (rule not_jle_zero)
  have "q \<noteq> NaN" using q(2) by auto
  then have qp: "jlt (Fin 0) q" using q(3) by (rule not_jle_zero)
  have "s \<noteq> NaN" unfolding sv using q(2) qp Gp by (rule peg_not_NaN)
  then have sp: "jlt (Fin 0) s" using s(2) by (rule not_jle_zero)
  have peg: "stockPeg (pegSteps r) = Some s"
    using vp s unfolding pegSteps_def Let_def by (auto split: if_splits)
  have fv: "fairValue (pegSteps r) =
               Some (jmul (ToNumber (currentPrice r))
                      (jdiv (jadd (ToNumber (marketPeg r))
                               (jmul (jmul (jsub (ToNumber (beta r)) (Fin 1)) (numberLiteral 0.7))
                                  (ToNumber (marketPeg r))))
                         s))"
    using vp s unfolding pegSteps_def Let_def by (auto split: if_splits)
  show ?thesis
    apply (rule exI [of _ q])
    apply (intro conjI)
          apply (rule q(1))
         apply (rule q(2))
        apply (rule qp)
       apply (rule Gp)
      apply (rule sp [unfolded sv])
     apply (rule peg [unfolded sv])
    apply (rule fv [unfolded sv])
    done
qed

lemma valuationSteps_unfold:
  assumes a: "actualEps r = Some a" "isFinite a" and e: "estimatedEps r = Some e" "isFinite e"
  shows "valuationSteps sd r =
      (if pe sd \<noteq> None then
         pegSteps (r\<lparr> hasForwardEps := True, growthRate := Some (jsub (jdiv e a) (Fin 1)),
                      stockPe := pe sd \<rparr>)
       else if truthyNum (currentPrice r) \<and> numTruthy a then
         pegSteps (r\<lparr> hasForwardEps := True, growthRate := Some (jsub (jdiv e a) (Fin 1)),
                      stockPe := Some (jdiv (ToNumber (currentPrice r)) a),
                      warnings := warnings r
                        @ [''PE calculated from price / actualEps (not from API).''] \<rparr>)
       else
         r\<lparr> hasForwardEps := True, growthRate := Some (jsub (jdiv e a) (Fin 1)),
            warnings := warnings r @ [''Cannot calculate PE; price or EPS missing.''],
            valuationPossible := False \<rparr>)"
  unfolding valuationSteps_def Let_def using a e by simp

lemma valuationSteps_success:
  assumes vp: "valuationPossible (valuationSteps sd r)"
      and est: "estimatedEps r = None \<or> (\<exists>e. estimatedEps r = Some (Fin e) \<and> 0 < e)"
  shows "\<exists>a e q. actualEps r = Some a \<and> isFinite a \<and> estimatedEps r = Some (Fin e) \<and> 0 < e \<and>
           isFinite q \<and> jlt (Fin 0) q \<and>
           jlt (Fin 0) (jsub (jdiv (Fin e) a) (Fin 1)) \<and>
           jlt (Fin 0) (jdiv q (jmul (jsub (jdiv (Fin e) a) (Fin 1)) (Fin 100))) \<and>
           growthRate (valuationSteps sd r) = Some (jsub (jdiv (Fin e) a) (Fin 1)) \<and>
           stockPe (valuationSteps sd r) = Some q \<and>
           stockPeg (valuationSteps sd r) =
             Some (jdiv q (jmul (jsub (jdiv (Fin e) a) (Fin 1)) (Fin 100))) \<and>
           fairValue (valuationSteps sd r) =
             Some (jmul (ToNumber (currentPrice r))
                    (jdiv (jadd (ToNumber (marketPeg r))
                             (jmul (jmul (jsub (ToNumber (beta r)) (Fin 1)) (numberLiteral 0.7))
                                (ToNumber (marketPeg r))))
                       (jdiv q (jmul (jsub (jdiv (Fin e) a) (Fin 1)) (Fin 100)))))"
proof -
  from vp have fin: "Number_isFinite (actualEps r)" "Number_isFinite (estimatedEps r)"
    unfolding valuationSteps_def by (auto split: if_splits)
  from fin(1) obtain a where a: "actualEps r = Some a" "isFinite a"
    by (cases "actualEps r") auto
  from fin(2) est obtain e where e: "estimatedEps r = Some (Fin e)" "0 < e"
    by auto
  define G where "G = jsub (jdiv (Fin e) a) (Fin 1)"
  define R where "R =
     (if pe sd \<noteq> None then
        r\<lparr> hasForwardEps := True, growthRate := Some G, stockPe := pe sd \<rparr>
      else
        r\<lparr> hasForwardEps := True, growthRate := Some G,
           stockPe := Some (jdiv (ToNumber (currentPrice r)) a),
           warnings := warnings r @ [''PE calculated from price / actualEps (not from API).''] \<rparr>)"
  define C where "C \<longleftrightarrow> pe sd \<noteq> None \<or> truthyNum (currentPrice r) \<and> numTruthy a"
  have steps: "valuationSteps sd r =
      (if C then pegSteps R
       else r\<lparr> hasForwardEps := True, growthRate := Some G,
               warnings := warnings r @ [''Cannot calculate PE; price or EPS missing.''],
               valuationPossible := False \<rparr>)"
    unfolding valuationSteps_unfold [OF a e(1), of sd, simplified] R_def G_def C_def by simp
  have ok: C
  proof (rule ccontr)
    assume "\<not> C"
    with steps have "\<not> valuationPossible (valuationSteps sd r)" by simp
    with vp show False by simp
  qed
  with steps have eq: "valuationSteps sd r = pegSteps R" by simp
  have Rg: "growthRate R = Some G" and Rc: "currentPrice R = currentPrice r"
    and Rm: "marketPeg R = marketPeg r" and Rb: "beta R = beta r"
    by (simp_all add: R_def)
  have Gn: "G \<noteq> NaN" unfolding G_def using e(2) a(2) by (rule growth_not_NaN)
  from pegSteps_success [OF vp [unfolded eq] Rg Gn]
  obtain q where q: "stockPe R = Some q" "isFinite q" "jlt (Fin 0) q" "jlt (Fin 0) G"
      "jlt (Fin 0) (jdiv q (jmul G (Fin 100)))"
      "stockPeg (pegSteps R) = Some (jdiv q (jmul G (Fin 100)))"
      "fairValue (pegSteps R) =
         Some (jmul (ToNumber (currentPrice R))
                (jdiv (jadd (ToNumber (marketPeg R))
                         (jmul (jmul (jsub (ToNumber (beta R)) (Fin 1)) (numberLiteral 0.7))
                            (ToNumber (marketPeg R))))
                   (jdiv q (jmul G (Fin 100)))))"
    by (elim exE conjE)
  have g: "growthRate (pegSteps R) = Some G" "stockPe (pegSteps R) = Some q"
    using q(1) Rg pegSteps_frame [of R] by simp_all
  show ?thesis
    apply (rule exI [of _ a], rule exI [of _ e], rule exI [of _ q])
    apply (intro conjI)
               apply (rule a(1))
              apply (rule a(2))
             apply (rule e(1))
            apply (rule e(2))
           apply (rule q(2))
          apply (rule q(3))
         apply (rule q(4) [unfolded G_def])
        apply (rule q(5) [unfolded G_def])
       apply (rule g(1) [folded eq, unfolded G_def])
      apply (rule g(2) [folded eq])
     apply (rule q(6) [folded eq, unfolded G_def])
    apply (rule q(7) [folded eq, unfolded G_def Rc Rm Rb])
    done
qed

lemma betaFallbackStep_fields:
  "marketPe (betaFallbackStep sd r) = marketPe r \<and>
   marketPeg (betaFallbackStep sd r) = marketPeg r \<and>
   beta (betaFallbackStep sd r) = beta r \<and>
   actualEps (betaFallbackStep sd r) = actualEps r \<and>
   estimatedEps (betaFallbackStep sd r) = estimatedEps r \<and>
   currentPrice (betaFallbackStep sd r) = currentPrice r \<and>
   stockPeg (betaFallbackStep sd r) = stockPeg r \<and>
   stockPe (betaFallbackStep sd r) = stockPe r \<and>
   fairValue (betaFallbackStep sd r) = fairValue r \<and>
   warnings (betaFallbackStep sd r) = warnings r \<and>
   assumptions (betaFallbackStep sd r) = assumptions r \<and>
   result.symbol (betaFallbackStep sd r) = result.symbol r"
  unfolding betaFallbackStep_def by simp

lemma estimateStep_fields:
  assumes "estimateStep B h k r = Inr r'"
  shows "marketPe r' = marketPe r \<and> marketPeg r' = marketPeg r \<and> beta r' = beta r \<and>
         actualEps r' = actualEps r \<and> currentPrice r' = currentPrice r \<and>
         stockPeg r' = stockPeg r \<and> stockPe r' = stockPe r \<and> fairValue r' = fairValue r \<and>
         result.symbol r' = result.symbol r \<and> assumptions r' = assumptions r \<and>
         (warnings r' = warnings r \<or>
          (\<exists>s. warnings r' = warnings r @ [''Estimated EPS from Alpha Vantage for period '' @ s])) \<and>
         (estimatedEps r' = estimatedEps r \<or> (\<exists>x. estimatedEps r' = Some (Fin x) \<and> 0 < x))"
proof -
  from getEstimated_Inr[of B h] obtain found where
    f: "getEstimatedEpsFromAlphaVantage B h = Inr found"
       "found = None \<or> (\<exists>a x. found = Some a \<and> eps a = Fin x \<and> 0 < x)"
    by blast
  show ?thesis
  proof (cases found)
    case None
    with f(1) assms have "r' = r" unfolding estimateStep_def by (simp split: if_splits)
    then show ?thesis by simp
  next
    case (Some a)
    with f(2) obtain x where x: "eps a = Fin x" "0 < x" by auto
    from Some f(1) assms x show ?thesis
      unfolding estimateStep_def by (auto split: if_splits)
  qed
qed

lemma estimateStep_total: "\<exists>r'. estimateStep B h k r = Inr r'"
proof -
  from getEstimated_Inr[of B h] obtain found where
    f: "getEstimatedEpsFromAlphaVantage B h = Inr found" by blast
  show ?thesis unfolding estimateStep_def f by (cases found) auto
qed

lemma marketStep_fields:
  "marketPe (marketStep r) = Some (Fin 29) \<and>
   marketPeg (marketStep r) = Some (jdiv (Fin 29) (Fin 13.5)) \<and>
   fairValue (marketStep r) = fairValue r \<and> stockPeg (marketStep r) = stockPeg r \<and>
   stockPe (marketStep r) = stockPe r \<and>
   warnings (marketStep r) = warnings r \<and>
   valuationPossible (marketStep r) = valuationPossible r \<and>
   assumptions (marketStep r) = assumptions r \<and>
   result.symbol (marketStep r) = result.symbol r"
  unfolding marketStep_def Let_def by simp

lemma valuationTry_Inl:
  assumes "valuationTry B P p = Inl (e, r)"
  shows "getStockData B P (params.symbol p) = Inl e \<and> r = marketStep (initialResult p)"
proof (cases "getStockData B P (params.symbol p)")
  case (Inl e')
  with assms show ?thesis unfolding valuationTry_def Let_def by simp
next
  case (Inr sd)
  obtain r3 where "estimateStep B (estimatesResponse P) (alphaVantageApiKey p)
      (stockDataStep sd (marketStep (initialResult p))) = Inr r3"
    using estimateStep_total by blast
  with Inr assms show ?thesis unfolding valuationTry_def Let_def by simp
qed

lemma valuationTry_Inr:
  assumes "valuationTry B P p = Inr r"
  shows "\<exists>sd r0. getStockData B P (params.symbol p) = Inr sd \<and> r = valuationSteps sd r0 \<and>
           marketPe r0 = Some (Fin 29) \<and> marketPeg r0 = Some (jdiv (Fin 29) (Fin 13.5)) \<and>
           beta r0 = Some (stockData.beta sd) \<and> actualEps r0 = stockData.actualEps sd \<and>
           currentPrice r0 = Some (price sd) \<and>
           (estimatedEps r0 = None \<or> (\<exists>x. estimatedEps r0 = Some (Fin x) \<and> 0 < x)) \<and>
           stockPeg r0 = None \<and> stockPe r0 = None \<and> fairValue r0 = None \<and>
           assumptions r0 = assumptions (initialResult p) \<and>
           (warnings r0 = stockData.warnings sd \<or>
            (\<exists>s. warnings r0 = stockData.warnings sd
                   @ [''Estimated EPS from Alpha Vantage for period '' @ s]))"
proof -
  from assms obtain sd where sd: "getStockData B P (params.symbol p) = Inr sd"
    unfolding valuationTry_def Let_def by (auto split: sum.splits)
  define r2 where "r2 = stockDataStep sd (marketStep (initialResult p))"
  from assms sd obtain r3 where
    r3: "estimateStep B (estimatesResponse P) (alphaVantageApiKey p) r2 = Inr r3"
    and r: "r = valuationSteps sd (betaFallbackStep sd r3)"
    unfolding valuationTry_def Let_def r2_def by (auto split: sum.splits)
  have e2: "stockData.estimatedEps sd = None"
    using getStockData_Inr[OF sd] by simp
  have f2: "marketPe r2 = Some (Fin 29) \<and> marketPeg r2 = Some (jdiv (Fin 29) (Fin 13.5)) \<and>
            beta r2 = Some (stockData.beta sd) \<and> actualEps r2 = stockData.actualEps sd \<and>
            currentPrice r2 = Some (price sd) \<and> estimatedEps r2 = None \<and>
            stockPeg r2 = None \<and> stockPe r2 = None \<and> fairValue r2 = None \<and>
            assumptions r2 = assumptions (initialResult p) \<and>
            warnings r2 = stockData.warnings sd"
    unfolding r2_def stockDataStep_def using marketStep_fields[of "initialResult p"] e2
    by (simp add: initialResult_def)
  from estimateStep_fields[OF r3] f2 betaFallbackStep_fields[of sd r3]
  have "marketPe (betaFallbackStep sd r3) = Some (Fin 29) \<and>
        marketPeg (betaFallbackStep sd r3) = Some (jdiv (Fin 29) (Fin 13.5)) \<and>
        beta (betaFallbackStep sd r3) = Some (stockData.beta sd) \<and>
        actualEps (betaFallbackStep sd r3) = stockData.actualEps sd \<and>
        currentPrice (betaFallbackStep sd r3) = Some (price sd) \<and>
        (estimatedEps (betaFallbackStep sd r3) = None \<or>
           (\<exists>x. estimatedEps (betaFallbackStep sd r3) = Some (Fin x) \<and> 0 < x)) \<and>
        stockPeg (betaFallbackStep sd r3) = None \<and> stockPe (betaFallbackStep sd r3) = None \<and>
        fairValue (betaFallbackStep sd r3) = None \<and>
        assumptions (betaFallbackStep sd r3) = assumptions (initialResult p) \<and>
        (warnings (betaFallbackStep sd r3) = stockData.warnings sd \<or>
         (\<exists>s. warnings (betaFallbackStep sd r3) = stockData.warnings sd
                @ [''Estimated EPS from Alpha Vantage for period '' @ s]))"
    by auto
  with sd r show ?thesis by blast
qed

section \<open>Evaluating the model on the samples\<close>

lemmas fetch_defs =
  fetchCurrentPrice_def fetchMetrics_def fetchFinancials_def netIncomeOf_def
  extractPe_def extractEps_def extractBeta_def getStockData_def
  estimatesTry_def getEstimatedEpsFromAlphaVantage_def numTruthy_def

lemmas valuation_defs =
  calculateStockValuation_def valuationTry_def valuationSteps_def pegSteps_def
  calculatePeg_def betaFallbackStep_def estimateStep_def stockDataStep_def marketStep_def
  initialResult_def marketOf_def growthPercentOf_def

lemmas sample_defs =
  sampleBuiltins_def sampleMetric_def sampleEstimates_def sampleProvider_def
  failingProvider_def sampleParams_def

lemma sample_valuation:
  "\<exists>r. calculateStockValuation sampleBuiltins sampleProvider sampleParams = Inr r \<and>
       valuationPossible r"
  by (simp add: valuation_defs fetch_defs sample_defs Let_def sample_arith)

section \<open>The outcome of \<^verbatim>\<open>calculateStockValuation\<close>\<close>

lemma calculateStockValuation_cases:
  assumes "calculateStockValuation B P p = Inr r"
  shows "(\<exists>e. getStockData B P (params.symbol p) = Inl e \<and>
              r = (marketStep (initialResult p))
                    \<lparr> warnings := warnings (marketStep (initialResult p))
                         @ [''Error during calculation: '' @ e],
                      valuationPossible := False \<rparr>) \<or>
         valuationTry B P p = Inr r"
proof (cases "valuationTry B P p")
  case (Inl er)
  obtain e r1 where er: "er = (e, r1)" by (cases er)
  from valuationTry_Inl[OF Inl[unfolded er]] Inl er assms show ?thesis
    unfolding calculateStockValuation_def by auto
next
  case (Inr r')
  with assms show ?thesis unfolding calculateStockValuation_def by simp
qed

lemma calculateStockValuation_total: "\<exists>r. calculateStockValuation B P p = Inr r"
  unfolding calculateStockValuation_def by (auto split: sum.splits)

section \<open>The claims\<close>

subsection \<open>The invariant of the result\<close>

text \<open>
  C1. For every result that \<^verbatim>\<open>calculateStockValuation\<close> returns: when
  \<open>valuationPossible\<close> is true, \<open>fairValue\<close>, \<open>stockPeg\<close>, \<open>marketPeg\<close> and
  \<open>growthRate\<close> are present (not \<^verbatim>\<open>null\<close>) and \<open>stockPeg\<close>, \<open>growthRate\<close> and
  \<open>stockPe\<close> are greater than 0; when it is false, \<open>fairValue\<close> is \<^verbatim>\<open>null\<close>.
\<close>

theorem valuation_invariant:
  assumes "calculateStockValuation B P p = Inr r"
  shows "(valuationPossible r \<longrightarrow>
            (\<exists>fv sp mp g q. fairValue r = Some fv \<and> stockPeg r = Some sp \<and>
               marketPeg r = Some mp \<and> growthRate r = Some g \<and> stockPe r = Some q \<and>
               jlt (Fin 0) sp \<and> jlt (Fin 0) g \<and> jlt (Fin 0) q)) \<and>
         (\<not> valuationPossible r \<longrightarrow> fairValue r = None)"
  using calculateStockValuation_cases[OF assms]
proof (elim disjE exE conjE)
  fix e
  assume "r = (marketStep (initialResult p))
                \<lparr> warnings := warnings (marketStep (initialResult p))
                     @ [''Error during calculation: '' @ e],
                  valuationPossible := False \<rparr>"
  then show ?thesis
    using marketStep_fields[of "initialResult p"] by (simp add: initialResult_def)
next
  assume "valuationTry B P p = Inr r"
  from valuationTry_Inr[OF this] obtain sd r0 where
    r: "r = valuationSteps sd r0"
    and mp: "marketPeg r0 = Some (jdiv (Fin 29) (Fin 13.5))"
    and est: "estimatedEps r0 = None \<or> (\<exists>x. estimatedEps r0 = Some (Fin x) \<and> 0 < x)"
    and fv: "fairValue r0 = None"
    by blast
  have fail: "\<not> valuationPossible r \<longrightarrow> fairValue r = None"
    unfolding r using valuationSteps_failure[OF fv] by blast
  have ok: "valuationPossible r \<longrightarrow>
            (\<exists>fv sp mp g q. fairValue r = Some fv \<and> stockPeg r = Some sp \<and>
               marketPeg r = Some mp \<and> growthRate r = Some g \<and> stockPe r = Some q \<and>
               jlt (Fin 0) sp \<and> jlt (Fin 0) g \<and> jlt (Fin 0) q)"
  proof
    assume vp: "valuationPossible r"
    from valuationSteps_success[OF vp[unfolded r] est]
    obtain a e q where
      pos: "jlt (Fin 0) q" "jlt (Fin 0) (jsub (jdiv (Fin e) a) (Fin 1))"
           "jlt (Fin 0) (jdiv q (jmul (jsub (jdiv (Fin e) a) (Fin 1)) (Fin 100)))"
      and g: "growthRate r = Some (jsub (jdiv (Fin e) a) (Fin 1))"
      and q: "stockPe r = Some q"
      and sp: "stockPeg r = Some (jdiv q (jmul (jsub (jdiv (Fin e) a) (Fin 1)) (Fin 100)))"
      and f: "\<exists>v. fairValue r = Some v"
      unfolding r by blast
    have m: "marketPeg r = Some (jdiv (Fin 29) (Fin 13.5))"
      unfolding r using valuationSteps_frame[of sd r0] mp by simp
    from pos g q sp f m show "\<exists>fv sp mp g q. fairValue r = Some fv \<and> stockPeg r = Some sp \<and>
               marketPeg r = Some mp \<and> growthRate r = Some g \<and> stockPe r = Some q \<and>
               jlt (Fin 0) sp \<and> jlt (Fin 0) g \<and> jlt (Fin 0) q"
      by auto
  qed
  from ok fail show ?thesis by simp
qed

text \<open>The sample symbol is valued, and its result has the fields of C1.\<close>

theorem valuation_invariant_witness:
  "\<exists>r. calculateStockValuation sampleBuiltins sampleProvider sampleParams = Inr r \<and>
       valuationPossible r \<and>
       (\<exists>fv sp mp g q. fairValue r = Some fv \<and> stockPeg r = Some sp \<and>
          marketPeg r = Some mp \<and> growthRate r = Some g \<and> stockPe r = Some q \<and>
          jlt (Fin 0) sp \<and> jlt (Fin 0) g \<and> jlt (Fin 0) q)"
proof -
  from sample_valuation obtain r where
    r: "calculateStockValuation sampleBuiltins sampleProvider sampleParams = Inr r"
       "valuationPossible r"
    by blast
  from valuation_invariant[OF r(1)] r show ?thesis by blast
qed

subsection \<open>Totality\<close>

lemma showNat_404: "showNat 404 = ''404''"
  by (simp add: showNat.simps)


lemma getStockData_Inl:
  "getStockData B P t = Inl e \<longleftrightarrow> fetchCurrentPrice B (quoteResponse P) t = Inl e"
  unfolding getStockData_def Let_def
  by (auto split: sum.splits prod.splits)



subsection \<open>The fair value\<close>

lemma sample_result:
  "\<exists>r. calculateStockValuation sampleBuiltins sampleProvider sampleParams = Inr r \<and>
       valuationPossible r \<and> currentPrice r = Some (Fin 150.25) \<and>
       beta r = Some (Fin 1.25) \<and> stockPeg r = Some (Fin 0.5)"
  by (simp add: valuation_defs fetch_defs sample_defs Let_def sample_arith)

text \<open>
  C3. Whenever the returned result has \<open>valuationPossible = true\<close>, its \<open>fairValue\<close> is
  the value of \<^verbatim>\<open>currentPrice * ((marketPeg + (beta - 1) * 0.7 * marketPeg) / stockPeg)\<close>
  on the result's own fields, which are all present: the formula
  \<open>currentPrice \<times> (marketPeg + (beta - 1) \<times> 0.7 \<times> marketPeg) / stockPeg\<close> with the
  damping coefficient 0.7, computed with the operators of JavaScript numbers. Each
  operator rounds its result to a double, so the value can also be an infinity or NaN;
  the quotient by \<open>stockPeg\<close> is taken before the product with the price, as in the
  source. The price and \<open>stockPeg\<close> are greater than 0.
\<close>

theorem fair_value_formula:
  assumes "calculateStockValuation B P p = Inr r" and "valuationPossible r"
  shows "\<exists>pr b mp sp. currentPrice r = Some pr \<and> beta r = Some b \<and>
           marketPeg r = Some mp \<and> stockPeg r = Some sp \<and>
           jlt (Fin 0) pr \<and> jlt (Fin 0) sp \<and>
           fairValue r =
             Some (jmul pr
                    (jdiv (jadd mp (jmul (jmul (jsub b (Fin 1)) (numberLiteral 0.7)) mp)) sp))"
proof -
  from calculateStockValuation_cases[OF assms(1)] assms(2)
  have "valuationTry B P p = Inr r" by auto
  from valuationTry_Inr[OF this] obtain sd r0 where
    sd: "getStockData B P (params.symbol p) = Inr sd" and r: "r = valuationSteps sd r0"
    and mp: "marketPeg r0 = Some (jdiv (Fin 29) (Fin 13.5))"
    and b0: "beta r0 = Some (stockData.beta sd)"
    and c0: "currentPrice r0 = Some (price sd)"
    and est: "estimatedEps r0 = None \<or> (\<exists>x. estimatedEps r0 = Some (Fin x) \<and> 0 < x)"
    by blast
  from getStockData_Inr[OF sd] obtain x where pr: "price sd = Fin x" "0 < x" by auto
  from valuationSteps_success[OF assms(2)[unfolded r] est]
  obtain a e q where
    pos: "jlt (Fin 0) (jdiv q (jmul (jsub (jdiv (Fin e) a) (Fin 1)) (Fin 100)))"
    and sp: "stockPeg r = Some (jdiv q (jmul (jsub (jdiv (Fin e) a) (Fin 1)) (Fin 100)))"
    and fv: "fairValue r =
             Some (jmul (ToNumber (currentPrice r0))
                    (jdiv (jadd (ToNumber (marketPeg r0))
                             (jmul (jmul (jsub (ToNumber (beta r0)) (Fin 1)) (numberLiteral 0.7))
                                (ToNumber (marketPeg r0))))
                       (jdiv q (jmul (jsub (jdiv (Fin e) a) (Fin 1)) (Fin 100)))))"
    unfolding r by blast
  define s where "s = jdiv q (jmul (jsub (jdiv (Fin e) a) (Fin 1)) (Fin 100))"
  have fr: "currentPrice r = Some (price sd)" "beta r = Some (stockData.beta sd)"
           "marketPeg r = Some (jdiv (Fin 29) (Fin 13.5))"
    unfolding r using valuationSteps_frame[of sd r0] c0 b0 mp by simp_all
  have pp: "jlt (Fin 0) (price sd)" using pr by simp
  have fv1: "fairValue r =
             Some (jmul (price sd)
                    (jdiv (jadd (jdiv (Fin 29) (Fin 13.5))
                             (jmul (jmul (jsub (stockData.beta sd) (Fin 1)) (numberLiteral 0.7))
                                (jdiv (Fin 29) (Fin 13.5))))
                       s))"
    using fv unfolding s_def c0 b0 mp by simp
  show ?thesis
    apply (rule exI [of _ "price sd"], rule exI [of _ "stockData.beta sd"],
           rule exI [of _ "jdiv (Fin 29) (Fin 13.5)"], rule exI [of _ s])
    apply (intro conjI)
          apply (rule fr(1))
         apply (rule fr(2))
        apply (rule fr(3))
       apply (rule sp [folded s_def])
      apply (rule pp)
     apply (rule pos [folded s_def])
    apply (rule fv1)
    done
qed

text \<open>The sample symbol: its fair value is the formula on its own fields.\<close>

theorem fair_value_formula_witness:
  "\<exists>r. calculateStockValuation sampleBuiltins sampleProvider sampleParams = Inr r \<and>
       valuationPossible r \<and> currentPrice r = Some (Fin 150.25) \<and>
       beta r = Some (Fin 1.25) \<and> stockPeg r = Some (Fin 0.5) \<and>
       (\<exists>mp. marketPeg r = Some mp \<and>
          fairValue r =
            Some (jmul (Fin 150.25)
                   (jdiv (jadd mp (jmul (jmul (jsub (Fin 1.25) (Fin 1)) (numberLiteral 0.7)) mp))
                      (Fin 0.5))))"
proof -
  from sample_result obtain r where
    r: "calculateStockValuation sampleBuiltins sampleProvider sampleParams = Inr r"
       "valuationPossible r"
    and f: "currentPrice r = Some (Fin 150.25)" "beta r = Some (Fin 1.25)"
           "stockPeg r = Some (Fin 0.5)"
    by (elim exE conjE)
  from fair_value_formula[OF r] obtain pr b mp sp where
    g: "currentPrice r = Some pr" "beta r = Some b" "marketPeg r = Some mp"
       "stockPeg r = Some sp"
       "fairValue r =
             Some (jmul pr
                    (jdiv (jadd mp (jmul (jmul (jsub b (Fin 1)) (numberLiteral 0.7)) mp)) sp))"
    by (elim exE conjE)
  from f g have "pr = Fin 150.25" "b = Fin 1.25" "sp = Fin 0.5" by simp_all
  with g have fv: "fairValue r =
            Some (jmul (Fin 150.25)
                   (jdiv (jadd mp (jmul (jmul (jsub (Fin 1.25) (Fin 1)) (numberLiteral 0.7)) mp))
                      (Fin 0.5)))"
    by simp
  have "\<exists>mp. marketPeg r = Some mp \<and>
          fairValue r =
            Some (jmul (Fin 150.25)
                   (jdiv (jadd mp (jmul (jmul (jsub (Fin 1.25) (Fin 1)) (numberLiteral 0.7)) mp))
                      (Fin 0.5)))"
    by (rule exI [of _ mp]) (intro conjI g(3) fv)
  with r f show ?thesis by blast
qed

text \<open>
  The value of the formula can be Infinity: at a price of \<open>2 ^ 1023\<close> the symbol is
  valued, and the product with the price overflows.
\<close>

lemma fair_value_overflow:
  "\<exists>r. calculateStockValuation sampleBuiltins hugePriceProvider sampleParams = Inr r \<and>
       valuationPossible r \<and> beta r = Some (Fin 1) \<and> stockPeg r = Some (Fin 0.5) \<and>
       fairValue r = Some PInf"
  using huge_price_arith
  by (simp add: valuation_defs fetch_defs sample_defs hugePriceProvider_def Let_def sample_arith)

subsection \<open>The market benchmark\<close>

lemma market_fields:
  assumes "calculateStockValuation B P p = Inr r"
  shows "marketPe r = Some (Fin 29) \<and> marketPeg r = Some (jdiv (Fin 29) (Fin 13.5)) \<and>
         assumptions r = assumptions (initialResult p)"
  using calculateStockValuation_cases[OF assms]
proof (elim disjE exE conjE)
  fix e
  assume "r = (marketStep (initialResult p))
                \<lparr> warnings := warnings (marketStep (initialResult p))
                     @ [''Error during calculation: '' @ e],
                  valuationPossible := False \<rparr>"
  then show ?thesis using marketStep_fields[of "initialResult p"] by simp
next
  assume "valuationTry B P p = Inr r"
  from valuationTry_Inr[OF this] obtain sd r0 where
    "r = valuationSteps sd r0" "marketPe r0 = Some (Fin 29)"
    "marketPeg r0 = Some (jdiv (Fin 29) (Fin 13.5))"
    "assumptions r0 = assumptions (initialResult p)"
    by blast
  then show ?thesis using valuationSteps_frame[of sd r0] by simp
qed

text \<open>
  Whatever the request supplies, \<open>marketPe\<close> is the constant 29, \<open>marketPeg\<close> is 29
  divided by the constant 13.5, and the request's \<open>marketGrowthRatePercent\<close> (10 when it
  is left out) is recorded in \<open>assumptions\<close>.
\<close>

lemma market_benchmark_constant:
  "\<exists>r. calculateStockValuation B P p = Inr r \<and>
       marketPe r = Some (Fin 29) \<and>
       marketPeg r = Some (jdiv (Fin 29) (Fin 13.5)) \<and>
       assumptions_data.marketGrowthRatePercent (assumptions r) = growthPercentOf p"
proof -
  obtain r where r: "calculateStockValuation B P p = Inr r"
    using calculateStockValuation_total by blast
  from market_fields[OF r] r show ?thesis
    by (auto simp: initialResult_def)
qed

text \<open>
  C4 says that \<open>marketPeg\<close> is \<open>marketPe\<close> divided by the \<open>marketGrowthRatePercent\<close> of
  the request. The code at a request that supplies 10 percent: the result records the 10
  in \<open>assumptions\<close>, its \<open>marketPe\<close> is 29, and its \<open>marketPeg\<close> is 29 divided by the
  constant 13.5 of line 267, which is not 29 divided by 10.
\<close>

theorem market_peg_ignores_request:
  "params.marketGrowthRatePercent tenPercentParams = JNumber (Fin 10) \<and>
   assumptions_data.marketGrowthRatePercent
     (assumptions (projr (calculateStockValuation sampleBuiltins sampleProvider tenPercentParams)))
     = JNumber (Fin 10) \<and>
   marketPe (projr (calculateStockValuation sampleBuiltins sampleProvider tenPercentParams))
     = Some (Fin 29) \<and>
   marketPeg (projr (calculateStockValuation sampleBuiltins sampleProvider tenPercentParams))
     = Some (jdiv (Fin 29) (Fin 13.5)) \<and>
   marketPeg (projr (calculateStockValuation sampleBuiltins sampleProvider tenPercentParams)) \<noteq>
     Some (jdiv
             (ToNumber (marketPe (projr (calculateStockValuation sampleBuiltins sampleProvider
                tenPercentParams))))
             (parseFloat sampleBuiltins (params.marketGrowthRatePercent tenPercentParams)))"
proof -
  from market_benchmark_constant [of sampleBuiltins sampleProvider tenPercentParams]
  obtain r where r: "calculateStockValuation sampleBuiltins sampleProvider tenPercentParams = Inr r"
    and f: "marketPe r = Some (Fin 29)" "marketPeg r = Some (jdiv (Fin 29) (Fin 13.5))"
      "assumptions_data.marketGrowthRatePercent (assumptions r) = growthPercentOf tenPercentParams"
    by (elim exE conjE)
  have p: "params.marketGrowthRatePercent tenPercentParams = JNumber (Fin 10)"
    by (simp add: tenPercentParams_def)
  have g: "growthPercentOf tenPercentParams = JNumber (Fin 10)"
    by (simp add: growthPercentOf_def p)
  show ?thesis
    unfolding r using f benchmark_differs by (simp add: p g)
qed

subsection \<open>Growth that is not positive\<close>

lemma not_possible_no_fairValue:
  assumes "calculateStockValuation B P p = Inr r" and "\<not> valuationPossible r"
  shows "fairValue r = None"
  using calculateStockValuation_cases[OF assms(1)]
proof (elim disjE exE conjE)
  fix e
  assume "r = (marketStep (initialResult p))
                \<lparr> warnings := warnings (marketStep (initialResult p))
                     @ [''Error during calculation: '' @ e],
                  valuationPossible := False \<rparr>"
  then show ?thesis
    using marketStep_fields[of "initialResult p"] by (simp add: initialResult_def)
next
  assume "valuationTry B P p = Inr r"
  from valuationTry_Inr[OF this] obtain sd r0 where
    r: "r = valuationSteps sd r0" and f: "fairValue r0 = None" by blast
  from assms(2) have "\<not> valuationPossible (valuationSteps sd r0)" unfolding r .
  from valuationSteps_failure[OF f this] show ?thesis unfolding r .
qed

lemma possible_growth:
  assumes "calculateStockValuation B P p = Inr r" and "valuationPossible r"
  shows "\<exists>a e. actualEps r = Some a \<and> estimatedEps r = Some (Fin e) \<and>
           0 < e \<and> jlt (Fin 0) (jsub (jdiv (Fin e) a) (Fin 1))"
proof -
  from calculateStockValuation_cases[OF assms(1)] assms(2)
  have "valuationTry B P p = Inr r" by auto
  from valuationTry_Inr[OF this] obtain sd r0 where
    r: "r = valuationSteps sd r0"
    and est: "estimatedEps r0 = None \<or> (\<exists>x. estimatedEps r0 = Some (Fin x) \<and> 0 < x)"
    by blast
  from valuationSteps_success[OF assms(2)[unfolded r] est]
  obtain a e where ae: "actualEps r0 = Some a" "estimatedEps r0 = Some (Fin e)"
    "0 < e" "jlt (Fin 0) (jsub (jdiv (Fin e) a) (Fin 1))" by blast
  have "actualEps r = Some a" "estimatedEps r = Some (Fin e)"
    unfolding r using valuationSteps_frame[of sd r0] ae(1,2) by simp_all
  with ae(3,4) show ?thesis by blast
qed

text \<open>
  C5. For every valuation whose result has finite \<open>actualEps\<close> and \<open>estimatedEps\<close> with
  \<open>estimatedEps \<le> actualEps\<close>, the result has \<open>valuationPossible = false\<close> and
  \<open>fairValue\<close> is \<^verbatim>\<open>null\<close>.
\<close>

theorem no_valuation_without_growth:
  assumes "calculateStockValuation B P p = Inr r"
      and "actualEps r = Some (Fin a)" and "estimatedEps r = Some (Fin e)" and "e \<le> a"
  shows "\<not> valuationPossible r \<and> fairValue r = None"
proof -
  have "\<not> valuationPossible r"
  proof
    assume "valuationPossible r"
    from possible_growth[OF assms(1) this] assms(2,3)
    have e: "0 < e" and g: "jlt (Fin 0) (jsub (jdiv (Fin e) (Fin a)) (Fin 1))" by auto
    from growth_nonpositive [OF e assms(4)] jlt_zero_not_jle [OF g]
    show False by simp
  qed
  with not_possible_no_fairValue[OF assms(1)] show ?thesis by simp
qed

lemma declining_valuation:
  "\<exists>r. calculateStockValuation sampleBuiltins decliningProvider sampleParams = Inr r \<and>
       actualEps r = Some (Fin 4) \<and> estimatedEps r = Some (Fin 3)"
  by (simp add: valuation_defs fetch_defs sample_defs decliningProvider_def Let_def sample_arith)

text \<open>A forward estimate of 3.00 against a trailing EPS of 4.\<close>

theorem no_valuation_without_growth_witness:
  "\<exists>r. calculateStockValuation sampleBuiltins decliningProvider sampleParams = Inr r \<and>
       actualEps r = Some (Fin 4) \<and> estimatedEps r = Some (Fin 3) \<and> (3::real) \<le> 4 \<and>
       \<not> valuationPossible r \<and> fairValue r = None"
proof -
  from declining_valuation obtain r where
    r: "calculateStockValuation sampleBuiltins decliningProvider sampleParams = Inr r"
       "actualEps r = Some (Fin 4)" "estimatedEps r = Some (Fin 3)"
    by blast
  have le: "(3::real) \<le> 4" by simp
  from no_valuation_without_growth[OF r le] r le show ?thesis by blast
qed















subsection \<open>Beta\<close>

text \<open>
  The number 0, of either sign, is the only falsy value that parses to a finite number;
  every other provider beta that parses to a finite number that is not negative is
  returned as it is.
\<close>

lemma isZero_cases: "isZero n \<Longrightarrow> n = Fin 0 \<or> n = NegZero"
  by (cases n) auto

lemma falsy_with_finite_value:
  "\<not> truthy v \<Longrightarrow> isFinite (parseFloat B v) \<Longrightarrow> v = JNumber (Fin 0) \<or> v = JNumber NegZero"
  by (cases v) (auto simp: numTruthy_def split: if_splits dest: isZero_cases)

lemma provider_beta_kept:
  assumes g: "getStockData B P t = Inr sd"
      and m: "metricResponse P = JsonBody md" "metric md = Some ms"
      and v: "isFinite (parseFloat B (metric_fields.beta ms))"
             "\<not> jlt (parseFloat B (metric_fields.beta ms)) (Fin 0)"
      and n: "metric_fields.beta ms \<noteq> JNumber (Fin 0)" "metric_fields.beta ms \<noteq> JNumber NegZero"
  shows "stockData.beta sd = parseFloat B (metric_fields.beta ms)"
proof -
  from n v(1) have tr: "truthy (metric_fields.beta ms)"
    using falsy_with_finite_value by blast
  have "extractBeta B ms = (Some (parseFloat B (metric_fields.beta ms)), [])"
    unfolding extractBeta_def Let_def using tr v by simp
  then have "fst (snd (snd (fetchMetrics B (metricResponse P)))) =
               Some (parseFloat B (metric_fields.beta ms))"
    unfolding fetchMetrics_def Let_def using m by simp
  with g show ?thesis
    unfolding getStockData_def Let_def
    by (auto split: sum.splits prod.splits if_splits)
qed

text \<open>
  C7 says that the result's beta is the provider's value whenever that value is present,
  finite and not negative. The code at a provider beta of the number 0: line 125 tests
  the value for truthiness, so 0 counts as absent, the result's beta is the default 1.0,
  \<open>betaFallbackUsed\<close> is true and the warning of the default is pushed. The same beta
  sent as the string \<^verbatim>\<open>"0"\<close> passes line 125 and line 127 and is kept as 0.
\<close>

theorem zero_beta_is_defaulted:
  "metric_fields.beta (sampleMetric\<lparr> metric_fields.beta := JNumber (Fin 0) \<rparr>) = JNumber (Fin 0) \<and>
   beta (projr (calculateStockValuation sampleBuiltins zeroBetaProvider sampleParams))
     = Some (Fin 1) \<and>
   betaFallbackUsed (projr (calculateStockValuation sampleBuiltins zeroBetaProvider sampleParams)) \<and>
   ''Beta value unavailable; using default beta = 1.0''
     \<in> set (warnings (projr (calculateStockValuation sampleBuiltins zeroBetaProvider sampleParams))) \<and>
   beta (projr (calculateStockValuation sampleBuiltins zeroBetaTextProvider sampleParams))
     = Some (Fin 0) \<and>
   \<not> betaFallbackUsed
       (projr (calculateStockValuation sampleBuiltins zeroBetaTextProvider sampleParams))"
  by (simp add: valuation_defs fetch_defs sample_defs zeroBetaProvider_def
        zeroBetaTextProvider_def Let_def sample_arith)

subsection \<open>The forward estimate\<close>





subsection \<open>The batch\<close>

lemma length_dropIndex: "i < length xs \<Longrightarrow> length (dropIndex i xs) = length xs - 1"
  unfolding dropIndex_def by simp

lemma dropIndex_beyond: "length xs \<le> i \<Longrightarrow> dropIndex i xs = xs"
  unfolding dropIndex_def by simp

lemma nth_dropIndex:
  "i < length xs \<Longrightarrow> j < length xs - 1 \<Longrightarrow>
     dropIndex i xs ! j = xs ! (if j < i then j else Suc j)"
  unfolding dropIndex_def by (simp add: nth_append min_def)

lemma marketAt_dropIndex:
  "marketAt (dropIndex i ms) j = marketAt ms (if j < i then j else Suc j)"
proof (cases "i < length ms")
  case True
  show ?thesis
  proof (cases "j < length ms - 1")
    case inner: True
    with True show ?thesis
      unfolding marketAt_def by (auto simp: length_dropIndex nth_dropIndex)
  next
    case False
    with True show ?thesis
      unfolding marketAt_def by (auto simp: length_dropIndex)
  qed
next
  case False
  then show ?thesis
    unfolding marketAt_def by (auto simp: dropIndex_beyond)
qed

lemma batchItem_market:
  "marketAt ms j = marketAt ms' j' \<Longrightarrow>
     batchItem B W k ak g ms t j = batchItem B W k ak g ms' t j'"
  unfolding batchItem_def by simp

lemma batch_without_ticker:
  assumes "i < length symbolList"
  shows "batchResults B W k ak g (dropIndex i symbolList) (dropIndex i marketList) =
           dropIndex i (batchResults B W k ak g symbolList marketList)"
proof (rule nth_equalityI)
  show "length (batchResults B W k ak g (dropIndex i symbolList) (dropIndex i marketList)) =
        length (dropIndex i (batchResults B W k ak g symbolList marketList))"
    using assms unfolding batchResults_def by (simp add: length_dropIndex)
next
  fix j
  assume "j < length (batchResults B W k ak g (dropIndex i symbolList) (dropIndex i marketList))"
  then have j: "j < length symbolList - 1"
    using assms unfolding batchResults_def by (simp add: length_dropIndex)
  define j' where "j' = (if j < i then j else Suc j)"
  from j have j': "j' < length symbolList" unfolding j'_def by auto
  have l: "batchResults B W k ak g (dropIndex i symbolList) (dropIndex i marketList) ! j =
           batchItem B W k ak g (dropIndex i marketList) (symbolList ! j') j"
    using j assms unfolding batchResults_def j'_def
    by (simp add: length_dropIndex nth_dropIndex)
  have r: "dropIndex i (batchResults B W k ak g symbolList marketList) ! j =
           batchItem B W k ak g marketList (symbolList ! j') j'"
    using j j' assms nth_dropIndex[of i "batchResults B W k ak g symbolList marketList" j]
    unfolding j'_def[symmetric] unfolding batchResults_def by simp
  have "marketAt (dropIndex i marketList) j = marketAt marketList j'"
    unfolding j'_def by (rule marketAt_dropIndex)
  from batchItem_market[OF this] l r
  show "batchResults B W k ak g (dropIndex i symbolList) (dropIndex i marketList) ! j =
        dropIndex i (batchResults B W k ak g symbolList marketList) ! j"
    by simp
qed

lemma toUpperCase_badsym: "toUpperCase ''badsym'' = ''BADSYM''"
  by (simp add: toUpperCase_def upperChar_def Let_def)

lemma failed_quote_result:
  assumes "fetchCurrentPrice B (quoteResponse P) (params.symbol p) = Inl e"
  shows "calculateStockValuation B P p =
           Inr ((marketStep (initialResult p))
                  \<lparr> warnings := [''Error during calculation: '' @ e],
                    valuationPossible := False \<rparr>)"
proof -
  from assms have "getStockData B P (params.symbol p) = Inl e"
    by (simp add: getStockData_Inl)
  then have "valuationTry B P p = Inl (e, marketStep (initialResult p))"
    unfolding valuationTry_def Let_def by simp
  moreover have "warnings (marketStep (initialResult p)) = []"
    by (simp add: marketStep_def initialResult_def Let_def)
  ultimately show ?thesis unfolding calculateStockValuation_def by simp
qed

text \<open>
  C9, as amended. In a batch over several tickers, a ticker whose price fetch fails with
  message \<open>e\<close> produces a fulfilled valuation result, not an error object: its
  \<open>symbol\<close> is the ticker in upper case, \<open>valuationPossible\<close> is false, \<open>fairValue\<close> is
  \<^verbatim>\<open>null\<close> and its only warning is \<^verbatim>\<open>Error during calculation: \<close> followed by \<open>e\<close>.
  The results of the other tickers are the results of the batch without that ticker
  (and without its entry in the market list).
\<close>

theorem batch_item_isolation:
  assumes i: "i < length symbolList"
      and q: "fetchCurrentPrice B (quoteResponse (W (toUpperCase (symbolList ! i))))
                (toUpperCase (symbolList ! i)) = Inl e"
  shows "(\<exists>r. batchResults B W k ak g symbolList marketList ! i = Fulfilled r \<and>
              result.symbol r = toUpperCase (symbolList ! i) \<and>
              \<not> valuationPossible r \<and> fairValue r = None \<and>
              warnings r = [''Error during calculation: '' @ e]) \<and>
         batchResults B W k ak g (dropIndex i symbolList) (dropIndex i marketList) =
           dropIndex i (batchResults B W k ak g symbolList marketList)"
proof (rule conjI)
  define p where "p =
      \<lparr> params.symbol = toUpperCase (symbolList ! i),
        finnhubApiKey = k,
        alphaVantageApiKey = ak,
        market = Some (marketAt marketList i),
        marketGrowthRatePercent = batchGrowthPercent B g \<rparr>"
  define r where "r = (marketStep (initialResult p))
                  \<lparr> warnings := [''Error during calculation: '' @ e],
                    valuationPossible := False \<rparr>"
  have s: "params.symbol p = toUpperCase (symbolList ! i)" unfolding p_def by simp
  have c: "calculateStockValuation B (W (toUpperCase (symbolList ! i))) p = Inr r"
    unfolding r_def by (rule failed_quote_result) (simp add: s q)
  have "batchResults B W k ak g symbolList marketList ! i =
          batchItem B W k ak g marketList (symbolList ! i) i"
    using i unfolding batchResults_def by simp
  also have "\<dots> = Fulfilled r"
    unfolding batchItem_def p_def[symmetric] c by simp
  finally have item: "batchResults B W k ak g symbolList marketList ! i = Fulfilled r" .
  have f: "result.symbol r = toUpperCase (symbolList ! i)" "\<not> valuationPossible r"
          "fairValue r = None" "warnings r = [''Error during calculation: '' @ e]"
    unfolding r_def using marketStep_fields[of "initialResult p"] s
    by (simp_all add: initialResult_def)
  show "\<exists>r. batchResults B W k ak g symbolList marketList ! i = Fulfilled r \<and>
              result.symbol r = toUpperCase (symbolList ! i) \<and>
              \<not> valuationPossible r \<and> fairValue r = None \<and>
              warnings r = [''Error during calculation: '' @ e]"
    apply (rule exI[of _ r])
    apply (intro conjI)
        apply (rule item)
       apply (rule f(1))
      apply (rule f(2))
     apply (rule f(3))
    apply (rule f(4))
    done
next
  show "batchResults B W k ak g (dropIndex i symbolList) (dropIndex i marketList) =
           dropIndex i (batchResults B W k ak g symbolList marketList)"
    by (rule batch_without_ticker[OF i])
qed

lemma failing_quote_badsym:
  "fetchCurrentPrice sampleBuiltins (quoteResponse (sampleWorld (toUpperCase ([''aapl'', ''badsym''] ! 1))))
     (toUpperCase ([''aapl'', ''badsym''] ! 1)) =
   Inl ''Failed to get quote for BADSYM: Finnhub API call failed: API returned status 404''"
  by (simp add: toUpperCase_badsym sampleWorld_def fetchCurrentPrice_def failingProvider_def showNat_404)

text \<open>The batch \<^verbatim>\<open>aapl,badsym\<close>, where the quote of BADSYM answers 404.\<close>

theorem batch_item_isolation_witness:
  "(1::nat) < length [''aapl'', ''badsym''] \<and>
   (\<exists>r. batchResults sampleBuiltins sampleWorld ''finnhub-key'' None JUndefined
          [''aapl'', ''badsym''] [] ! 1 = Fulfilled r \<and>
        result.symbol r = ''BADSYM'' \<and> \<not> valuationPossible r \<and> fairValue r = None \<and>
        warnings r = [''Error during calculation: Failed to get quote for BADSYM: Finnhub API call failed: API returned status 404'']) \<and>
   batchResults sampleBuiltins sampleWorld ''finnhub-key'' None JUndefined [''aapl''] [] =
     [batchResults sampleBuiltins sampleWorld ''finnhub-key'' None JUndefined
        [''aapl'', ''badsym''] [] ! 0]"
proof -
  have l: "(1::nat) < length [''aapl'', ''badsym'']" by simp
  note t = batch_item_isolation[where i = 1 and symbolList = "[''aapl'', ''badsym'']"
      and B = sampleBuiltins and W = sampleWorld and k = "''finnhub-key''" and ak = None
      and g = JUndefined and marketList = "[]", OF l failing_quote_badsym]
  from t have 1: "\<exists>r. batchResults sampleBuiltins sampleWorld ''finnhub-key'' None JUndefined
          [''aapl'', ''badsym''] [] ! 1 = Fulfilled r \<and>
        result.symbol r = ''BADSYM'' \<and> \<not> valuationPossible r \<and> fairValue r = None \<and>
        warnings r = [''Error during calculation: Failed to get quote for BADSYM: Finnhub API call failed: API returned status 404'']"
    by (simp add: toUpperCase_badsym)
  have d: "dropIndex 1 [''aapl'', ''badsym''] = [''aapl'']" "dropIndex 1 ([]::string list) = []"
    by (simp_all add: dropIndex_def)
  have len: "length (batchResults sampleBuiltins sampleWorld ''finnhub-key'' None JUndefined
        [''aapl'', ''badsym''] []) = 2"
    by (simp add: batchResults_def)
  have dr: "dropIndex 1 (batchResults sampleBuiltins sampleWorld ''finnhub-key'' None JUndefined
        [''aapl'', ''badsym''] []) =
      [batchResults sampleBuiltins sampleWorld ''finnhub-key'' None JUndefined
        [''aapl'', ''badsym''] [] ! 0]"
    using len unfolding dropIndex_def
    by (cases "batchResults sampleBuiltins sampleWorld ''finnhub-key'' None JUndefined
        [''aapl'', ''badsym''] []") (auto simp: length_Suc_conv)
  from t have 2: "batchResults sampleBuiltins sampleWorld ''finnhub-key'' None JUndefined [''aapl''] [] =
     [batchResults sampleBuiltins sampleWorld ''finnhub-key'' None JUndefined
        [''aapl'', ''badsym''] [] ! 0]"
    unfolding d dr by simp
  from l 1 2 show ?thesis by (intro conjI)
qed

text \<open>
  C9 as stated fails: the price fetch of BADSYM fails, and the second result of the batch
  is not the object \<open>{symbol, error, valuationPossible}\<close> of the \<^verbatim>\<open>.catch\<close> handler.
\<close>

theorem batch_error_shape_counterexample:
  "fetchCurrentPrice sampleBuiltins (quoteResponse (sampleWorld ''BADSYM'')) ''BADSYM'' =
     Inl ''Failed to get quote for BADSYM: Finnhub API call failed: API returned status 404'' \<and>
   batchResults sampleBuiltins sampleWorld ''finnhub-key'' None JUndefined
       [''AAPL'', ''BADSYM''] [] ! 1 \<noteq>
     Caught ''BADSYM''
       ''Failed to get quote for BADSYM: Finnhub API call failed: API returned status 404'' False \<and>
   \<not> is_Caught (batchResults sampleBuiltins sampleWorld ''finnhub-key'' None JUndefined
       [''AAPL'', ''BADSYM''] [] ! 1)"
  by (simp add: batchResults_def batchItem_def toUpperCase_def upperChar_def
        sampleWorld_def fetchCurrentPrice_def failingProvider_def showNat_404
        calculateStockValuation_def valuationTry_def getStockData_def Let_def)

subsection \<open>A trailing EPS of zero\<close>

lemma fetchMetrics_eps:
  assumes "m = JsonBody md" and "metric md = Some ms" and "Number_isFinite (extractEps B ms)"
  shows "fst (snd (fetchMetrics B m)) = extractEps B ms"
  using assms unfolding fetchMetrics_def Let_def by simp

lemma fetchMetrics_warnings:
  assumes "m = JsonBody md" and "metric md = Some ms"
  shows "''Actual EPS derived from reported net income (not per share basis).''
           \<notin> set (snd (snd (snd (fetchMetrics B m))))"
  using assms unfolding fetchMetrics_def extractBeta_def Let_def by simp

lemma finite_nonzero_truthy:
  "isFinite (parseFloat B v) \<Longrightarrow> \<not> isZero (parseFloat B v) \<Longrightarrow> truthy v"
  by (cases v) (auto simp: numTruthy_def split: if_splits)

text \<open>What \<^verbatim>\<open>getStockData\<close> returns when the metrics yield a trailing EPS of zero.\<close>

lemma zero_eps_stock_data:
  assumes q: "fetchCurrentPrice B (quoteResponse P) t = Inr pr"
      and m: "metricResponse P = JsonBody md" "metric md = Some ms"
      and z: "extractEps B ms = Some z0" "isZero z0"
  shows "\<exists>sd w1 w3. getStockData B P t = Inr sd \<and>
           stockData.actualEps sd =
             (case fst (fetchFinancials B (financialsResponse P)) of
                None \<Rightarrow> Some z0
              | Some netIncome \<Rightarrow> Some netIncome) \<and>
           stockData.warnings sd = w1 @ snd (fetchFinancials B (financialsResponse P)) @ w3 \<and>
           ''Actual EPS derived from reported net income (not per share basis).'' \<notin> set w1 \<and>
           ''Actual EPS derived from reported net income (not per share basis).'' \<notin> set w3"
proof -
  obtain pe1 eps1 b1 w1 where fm: "fetchMetrics B (metricResponse P) = (pe1, eps1, b1, w1)"
    by (cases "fetchMetrics B (metricResponse P)") auto
  have fin: "Number_isFinite (extractEps B ms)" using z by (cases z0) simp_all
  have "eps1 = Some z0"
    using fetchMetrics_eps[OF m fin] z fm by simp
  note fm = fm[unfolded this]
  have nt: "\<not> truthyNum (Some z0)" using z(2) by (simp add: numTruthy_def)
  obtain n w2 where ff: "fetchFinancials B (financialsResponse P) = (n, w2)"
    by (cases "fetchFinancials B (financialsResponse P)") auto
  define w3 where "w3 =
      (case b1 of None \<Rightarrow> [''Beta value unavailable; using default beta = 1.0''] | Some b \<Rightarrow> [])"
  define sd where "sd =
      \<lparr> stockData.beta = (case b1 of None \<Rightarrow> Fin 1 | Some b \<Rightarrow> b),
        actualEps = (case n of None \<Rightarrow> Some z0 | Some netIncome \<Rightarrow> Some netIncome),
        estimatedEps = None, price = pr, pe = pe1, warnings = w1 @ w2 @ w3 \<rparr>"
  have g: "getStockData B P t = Inr sd"
    unfolding getStockData_def Let_def q fm ff sd_def w3_def using nt
    by (simp split: option.splits)
  have a: "stockData.actualEps sd =
              (case fst (fetchFinancials B (financialsResponse P)) of
                 None \<Rightarrow> Some z0
               | Some netIncome \<Rightarrow> Some netIncome)"
    unfolding ff sd_def by simp
  have w: "stockData.warnings sd = w1 @ snd (fetchFinancials B (financialsResponse P)) @ w3"
    unfolding ff sd_def by simp
  have n1: "''Actual EPS derived from reported net income (not per share basis).'' \<notin> set w1"
    using fetchMetrics_warnings[OF m, of B] fm by simp
  have n3: "''Actual EPS derived from reported net income (not per share basis).'' \<notin> set w3"
    unfolding w3_def by (simp split: option.splits)
  show ?thesis
    apply (rule exI[of _ sd], rule exI[of _ w1], rule exI[of _ w3])
    apply (intro conjI)
        apply (rule g)
       apply (rule a)
      apply (rule w)
     apply (rule n1)
    apply (rule n3)
    done
qed

lemma filing_net_income:
  assumes "f = JsonBody fd" and "data fd = Some (Element fl # older)"
      and "report fl = Some rep" and "ic rep = Some inc"
  shows "fetchFinancials B f =
           (if isFinite (parseFloat B (NetIncomeLoss inc)) \<and> \<not> isZero (parseFloat B (NetIncomeLoss inc))
            then (Some (parseFloat B (NetIncomeLoss inc)),
                  [''Actual EPS derived from reported net income (not per share basis).''])
            else (None, []))"
proof (cases "isFinite (parseFloat B (NetIncomeLoss inc)) \<and> \<not> isZero (parseFloat B (NetIncomeLoss inc))")
  case True
  then have "truthy (NetIncomeLoss inc)" by (auto intro: finite_nonzero_truthy)
  with True assms show ?thesis
    unfolding fetchFinancials_def netIncomeOf_def Let_def by (simp add: jneq_zero)
next
  case False
  with assms show ?thesis
    unfolding fetchFinancials_def netIncomeOf_def Let_def by (auto simp: jneq_zero)
qed

lemma failed_financials:
  assumes "fetchFinnhub f = Inl e"
  shows "fetchFinancials B f = (None, [''Could not fetch financials: '' @ e])"
  using assms unfolding fetchFinancials_def by simp

text \<open>
  C10. When the price is obtained and the metrics payload yields a trailing EPS of
  exactly 0 (finite, so it passes the validation of line 120), \<^verbatim>\<open>getStockData\<close> still
  takes the branch \<^verbatim>\<open>!actualEps\<close> and consults the financials endpoint. When the latest
  filing reports a net income that parses to a finite number other than 0, the returned
  \<open>actualEps\<close> is that net income and the warning of the derivation is pushed; when it
  parses to 0 or to no finite number, the net income is not accepted: \<open>actualEps\<close> stays
  the zero of the metrics and no such warning is pushed. When the request for the
  filings fails, \<open>actualEps\<close> stays the zero and the failure is among the warnings. In
  every case the returned \<open>actualEps\<close> is the zero of the metrics or a finite number
  other than 0 taken from the filing.
\<close>

theorem zero_eps_uses_net_income:
  assumes q: "fetchCurrentPrice B (quoteResponse P) t = Inr pr"
      and m: "metricResponse P = JsonBody md" "metric md = Some ms"
      and z: "extractEps B ms = Some z0" "isZero z0"
  shows "\<exists>sd. getStockData B P t = Inr sd \<and>
           (\<forall>fd fl older rep inc.
              financialsResponse P = JsonBody fd \<and> data fd = Some (Element fl # older) \<and>
              report fl = Some rep \<and> ic rep = Some inc \<longrightarrow>
                (if isFinite (parseFloat B (NetIncomeLoss inc)) \<and>
                    \<not> isZero (parseFloat B (NetIncomeLoss inc))
                 then stockData.actualEps sd = Some (parseFloat B (NetIncomeLoss inc)) \<and>
                      ''Actual EPS derived from reported net income (not per share basis).''
                        \<in> set (stockData.warnings sd)
                 else stockData.actualEps sd = Some z0 \<and>
                      ''Actual EPS derived from reported net income (not per share basis).''
                        \<notin> set (stockData.warnings sd))) \<and>
           (\<forall>e. fetchFinnhub (financialsResponse P) = Inl e \<longrightarrow>
              stockData.actualEps sd = Some z0 \<and>
              ''Could not fetch financials: '' @ e \<in> set (stockData.warnings sd)) \<and>
           (stockData.actualEps sd = Some z0 \<or>
            (\<exists>x. stockData.actualEps sd = Some (Fin x) \<and> x \<noteq> 0 \<and>
                 ''Actual EPS derived from reported net income (not per share basis).''
                   \<in> set (stockData.warnings sd)))"
proof -
  from zero_eps_stock_data[OF q m z] obtain sd w1 w3 where
    g: "getStockData B P t = Inr sd"
    and a: "stockData.actualEps sd =
             (case fst (fetchFinancials B (financialsResponse P)) of
                None \<Rightarrow> Some z0
              | Some netIncome \<Rightarrow> Some netIncome)"
    and w: "stockData.warnings sd = w1 @ snd (fetchFinancials B (financialsResponse P)) @ w3"
    and n1: "''Actual EPS derived from reported net income (not per share basis).'' \<notin> set w1"
    and n3: "''Actual EPS derived from reported net income (not per share basis).'' \<notin> set w3"
    by (elim exE conjE)
  have 1: "\<forall>fd fl older rep inc.
              financialsResponse P = JsonBody fd \<and> data fd = Some (Element fl # older) \<and>
              report fl = Some rep \<and> ic rep = Some inc \<longrightarrow>
                (if isFinite (parseFloat B (NetIncomeLoss inc)) \<and>
                    \<not> isZero (parseFloat B (NetIncomeLoss inc))
                 then stockData.actualEps sd = Some (parseFloat B (NetIncomeLoss inc)) \<and>
                      ''Actual EPS derived from reported net income (not per share basis).''
                        \<in> set (stockData.warnings sd)
                 else stockData.actualEps sd = Some z0 \<and>
                      ''Actual EPS derived from reported net income (not per share basis).''
                        \<notin> set (stockData.warnings sd))"
  proof (intro allI impI)
    fix fd fl older rep inc
    assume h: "financialsResponse P = JsonBody fd \<and> data fd = Some (Element fl # older) \<and>
              report fl = Some rep \<and> ic rep = Some inc"
    then have f: "financialsResponse P = JsonBody fd" "data fd = Some (Element fl # older)"
      "report fl = Some rep" "ic rep = Some inc" by simp_all
    note ff = filing_net_income[OF f, of B]
    show "if isFinite (parseFloat B (NetIncomeLoss inc)) \<and>
                    \<not> isZero (parseFloat B (NetIncomeLoss inc))
                 then stockData.actualEps sd = Some (parseFloat B (NetIncomeLoss inc)) \<and>
                      ''Actual EPS derived from reported net income (not per share basis).''
                        \<in> set (stockData.warnings sd)
                 else stockData.actualEps sd = Some z0 \<and>
                      ''Actual EPS derived from reported net income (not per share basis).''
                        \<notin> set (stockData.warnings sd)"
      unfolding a w ff using n1 n3 by simp
  qed
  have 2: "\<forall>e. fetchFinnhub (financialsResponse P) = Inl e \<longrightarrow>
              stockData.actualEps sd = Some z0 \<and>
              ''Could not fetch financials: '' @ e \<in> set (stockData.warnings sd)"
  proof (intro allI impI)
    fix e assume "fetchFinnhub (financialsResponse P) = Inl e"
    note ff = failed_financials[OF this, of B]
    show "stockData.actualEps sd = Some z0 \<and>
              ''Could not fetch financials: '' @ e \<in> set (stockData.warnings sd)"
      unfolding a w ff by simp
  qed
  have 3: "stockData.actualEps sd = Some z0 \<or>
            (\<exists>x. stockData.actualEps sd = Some (Fin x) \<and> x \<noteq> 0 \<and>
                 ''Actual EPS derived from reported net income (not per share basis).''
                   \<in> set (stockData.warnings sd))"
  proof (cases "fst (fetchFinancials B (financialsResponse P))")
    case None
    then show ?thesis unfolding a by simp
  next
    case (Some n)
    then have "fetchFinancials B (financialsResponse P) =
                 (Some n, snd (fetchFinancials B (financialsResponse P)))"
      by (cases "fetchFinancials B (financialsResponse P)") simp
    from fetchFinancials_Some[OF this] obtain x where
      x: "n = Fin x" "x \<noteq> 0"
      and s: "snd (fetchFinancials B (financialsResponse P)) =
                [''Actual EPS derived from reported net income (not per share basis).'']"
      by auto
    have "stockData.actualEps sd = Some (Fin x)" unfolding a Some x by simp
    moreover have "''Actual EPS derived from reported net income (not per share basis).''
                   \<in> set (stockData.warnings sd)"
      unfolding w s by simp
    ultimately show ?thesis using x(2) by blast
  qed
  show ?thesis
    apply (rule exI[of _ sd])
    apply (intro conjI)
       apply (rule g)
      apply (rule 1)
     apply (rule 2)
    apply (rule 3)
    done
qed

text \<open>
  A trailing EPS of 0 with a filing that reports a net income of 93736000000, and with
  a filing that reports a net income of 0.
\<close>

theorem zero_eps_uses_net_income_witness:
  "extractEps sampleBuiltins (sampleMetric\<lparr> epsTTM := JNumber (Fin 0) \<rparr>) = Some (Fin 0) \<and>
   (\<exists>sd. getStockData sampleBuiltins zeroEpsProvider ''AAPL'' = Inr sd \<and>
         stockData.actualEps sd = Some (Fin 93736000000) \<and>
         ''Actual EPS derived from reported net income (not per share basis).''
           \<in> set (stockData.warnings sd)) \<and>
   (\<exists>sd. getStockData sampleBuiltins zeroIncomeProvider ''AAPL'' = Inr sd \<and>
         stockData.actualEps sd = Some (Fin 0) \<and>
         ''Actual EPS derived from reported net income (not per share basis).''
           \<notin> set (stockData.warnings sd))"
proof (intro conjI)
  show z: "extractEps sampleBuiltins (sampleMetric\<lparr> epsTTM := JNumber (Fin 0) \<rparr>) = Some (Fin 0)"
    by (simp add: extractEps_def sampleMetric_def)
  have iz: "isZero (Fin 0)" by simp
  have m2: "metric \<lparr> metric = Some (sampleMetric\<lparr> epsTTM := JNumber (Fin 0) \<rparr>) \<rparr> =
             Some (sampleMetric\<lparr> epsTTM := JNumber (Fin 0) \<rparr>)"
    by simp
  let ?inc = "\<lparr> NetIncomeLoss = JNumber (Fin 93736000000) \<rparr>"
  let ?rep = "\<lparr> ic = Some ?inc \<rparr>"
  let ?fl = "\<lparr> report = Some ?rep \<rparr>"
  let ?fd = "\<lparr> data = Some [Element ?fl] \<rparr>"
  have q: "fetchCurrentPrice sampleBuiltins (quoteResponse zeroEpsProvider) ''AAPL'' = Inr (Fin 150.25)"
    by (simp add: fetch_defs sample_defs zeroEpsProvider_def Let_def)
  have m: "metricResponse zeroEpsProvider =
             JsonBody \<lparr> metric = Some (sampleMetric\<lparr> epsTTM := JNumber (Fin 0) \<rparr>) \<rparr>"
    by (simp add: zeroEpsProvider_def sampleProvider_def)
  have f: "financialsResponse zeroEpsProvider = JsonBody ?fd \<and> data ?fd = Some (Element ?fl # []) \<and>
           report ?fl = Some ?rep \<and> ic ?rep = Some ?inc"
    by (simp add: zeroEpsProvider_def sampleProvider_def)
  from zero_eps_uses_net_income[OF q m m2 z iz] obtain sd where
    sd: "getStockData sampleBuiltins zeroEpsProvider ''AAPL'' = Inr sd"
    and a: "\<forall>fd fl older rep inc.
              financialsResponse zeroEpsProvider = JsonBody fd \<and> data fd = Some (Element fl # older) \<and>
              report fl = Some rep \<and> ic rep = Some inc \<longrightarrow>
                (if isFinite (parseFloat sampleBuiltins (NetIncomeLoss inc)) \<and>
                    \<not> isZero (parseFloat sampleBuiltins (NetIncomeLoss inc))
                 then stockData.actualEps sd = Some (parseFloat sampleBuiltins (NetIncomeLoss inc)) \<and>
                      ''Actual EPS derived from reported net income (not per share basis).''
                        \<in> set (stockData.warnings sd)
                 else stockData.actualEps sd = Some (Fin 0) \<and>
                      ''Actual EPS derived from reported net income (not per share basis).''
                        \<notin> set (stockData.warnings sd))"
    by (elim exE conjE)
  from a[rule_format, OF f]
  have "stockData.actualEps sd = Some (Fin 93736000000) \<and>
         ''Actual EPS derived from reported net income (not per share basis).''
           \<in> set (stockData.warnings sd)"
    by simp
  with sd show "\<exists>sd. getStockData sampleBuiltins zeroEpsProvider ''AAPL'' = Inr sd \<and>
         stockData.actualEps sd = Some (Fin 93736000000) \<and>
         ''Actual EPS derived from reported net income (not per share basis).''
           \<in> set (stockData.warnings sd)"
    by (intro exI[of _ sd] conjI) simp_all
  let ?inc0 = "\<lparr> NetIncomeLoss = JNumber (Fin 0) \<rparr>"
  let ?rep0 = "\<lparr> ic = Some ?inc0 \<rparr>"
  let ?fl0 = "\<lparr> report = Some ?rep0 \<rparr>"
  let ?fd0 = "\<lparr> data = Some [Element ?fl0] \<rparr>"
  have q0: "fetchCurrentPrice sampleBuiltins (quoteResponse zeroIncomeProvider) ''AAPL'' = Inr (Fin 150.25)"
    by (simp add: fetch_defs sample_defs zeroEpsProvider_def zeroIncomeProvider_def Let_def)
  have m0: "metricResponse zeroIncomeProvider =
             JsonBody \<lparr> metric = Some (sampleMetric\<lparr> epsTTM := JNumber (Fin 0) \<rparr>) \<rparr>"
    by (simp add: zeroEpsProvider_def zeroIncomeProvider_def sampleProvider_def)
  have f0: "financialsResponse zeroIncomeProvider = JsonBody ?fd0 \<and>
           data ?fd0 = Some (Element ?fl0 # []) \<and>
           report ?fl0 = Some ?rep0 \<and> ic ?rep0 = Some ?inc0"
    by (simp add: zeroEpsProvider_def zeroIncomeProvider_def sampleProvider_def)
  from zero_eps_uses_net_income[OF q0 m0 m2 z iz] obtain sd0 where
    sd0: "getStockData sampleBuiltins zeroIncomeProvider ''AAPL'' = Inr sd0"
    and a0: "\<forall>fd fl older rep inc.
              financialsResponse zeroIncomeProvider = JsonBody fd \<and> data fd = Some (Element fl # older) \<and>
              report fl = Some rep \<and> ic rep = Some inc \<longrightarrow>
                (if isFinite (parseFloat sampleBuiltins (NetIncomeLoss inc)) \<and>
                    \<not> isZero (parseFloat sampleBuiltins (NetIncomeLoss inc))
                 then stockData.actualEps sd0 = Some (parseFloat sampleBuiltins (NetIncomeLoss inc)) \<and>
                      ''Actual EPS derived from reported net income (not per share basis).''
                        \<in> set (stockData.warnings sd0)
                 else stockData.actualEps sd0 = Some (Fin 0) \<and>
                      ''Actual EPS derived from reported net income (not per share basis).''
                        \<notin> set (stockData.warnings sd0))"
    by (elim exE conjE)
  from a0[rule_format, OF f0]
  have "stockData.actualEps sd0 = Some (Fin 0) \<and>
         ''Actual EPS derived from reported net income (not per share basis).''
           \<notin> set (stockData.warnings sd0)"
    by simp
  with sd0 show "\<exists>sd. getStockData sampleBuiltins zeroIncomeProvider ''AAPL'' = Inr sd \<and>
         stockData.actualEps sd = Some (Fin 0) \<and>
         ''Actual EPS derived from reported net income (not per share basis).''
           \<notin> set (stockData.warnings sd)"
    by (intro exI[of _ sd0] conjI) simp_all
qed

end
